theory Spec2Isabelle
  imports Main "HOL-Library.Word"
begin

section \<open>The Containerized workload controller\<close>

text \<open>
  A shallow embedding of \<^verbatim>\<open>pkg/controller/v1alpha1/containerized/containerized_controller.go\<close>:
  the two render functions (\<^verbatim>\<open>renderDeployment\<close>, \<^verbatim>\<open>renderService\<close>) and the
  \<^verbatim>\<open>Reconcile\<close> cycle. Go structs are records, Go maps are partial functions, a Go slice
  that the code itself allocates is a \<open>list option\<close> (\<open>None\<close> is the nil slice), \<^verbatim>\<open>int32\<close> is
  \<open>32 word\<close>, and a \<^verbatim>\<open>(value, error)\<close> return is a sum with the error on the left.
  Calls of the logger (\<^verbatim>\<open>log.Info\<close>, \<^verbatim>\<open>log.Error\<close>) have no effect on any value the
  controller computes and are left out.
\<close>

subsection \<open>Kubernetes API types, restricted to the fields the controller touches\<close>

type_synonym int32 = "32 word"

type_synonym string_map = "string \<rightharpoonup> string"

record TypeMeta =
  Kind :: string
  APIVersion :: string

text \<open>\<^verbatim>\<open>cpv1alpha1.TypedReference\<close>; \<^verbatim>\<open>metav1.OwnerReference\<close> has the same four fields
  and two flags.\<close>

record TypedReference =
  ref_APIVersion :: string
  ref_Kind :: string
  ref_Name :: string
  ref_UID :: string

record OwnerReference = TypedReference +
  Controller :: bool
  BlockOwnerDeletion :: bool

record ObjectMeta =
  Name :: string
  Namespace :: string
  UID :: string
  Labels :: string_map
  Annotations :: string_map
  OwnerReferences :: "OwnerReference list"

record ContainerPort =
  port_Name :: string
  containerPort :: int32
  Protocol :: string

record Container =
  container_Name :: string
  Image :: string
  Ports :: "ContainerPort list"

record PodSpec =
  Containers :: "Container list"

record PodTemplateSpec =
  template_ObjectMeta :: ObjectMeta
  template_Spec :: PodSpec

record LabelSelector =
  MatchLabels :: string_map

record DeploymentSpec =
  Replicas :: "int32 option"
  Selector :: "LabelSelector option"
  Template :: PodTemplateSpec

record Deployment =
  deploy_TypeMeta :: TypeMeta
  deploy_ObjectMeta :: ObjectMeta
  deploy_Spec :: DeploymentSpec

text \<open>\<^verbatim>\<open>intstr.IntOrString\<close>: a tagged union of an \<^verbatim>\<open>int32\<close> and a string.\<close>

datatype IntOrString = IntVal int32 | StrVal string

record ServicePort =
  sp_Name :: string
  sp_Protocol :: string
  Port :: int32
  TargetPort :: IntOrString

record ServiceSpec =
  service_Selector :: string_map
  service_Ports :: "ServicePort list option"
  service_Type :: string

record Service =
  service_TypeMeta :: TypeMeta
  service_ObjectMeta :: ObjectMeta
  service_Spec :: ServiceSpec

subsection \<open>The declared workload\<close>

datatype error =
    NotFound string
  | OwnershipError
  | Failure string
  | Wrap error string

datatype Condition = ReconcileSuccess | ReconcileError error

text \<open>
  Modelled from the spec: the type declaration \<^verbatim>\<open>v1alpha1.Containerized\<close> (package
  \<^verbatim>\<open>api/v1alpha1\<close>) is not under src. Section 3 of the spec gives a declared workload a
  name and namespace, a pod template (a container list, each container with its ports), a
  desired replica count and a status sub-record holding a list of typed references and a
  condition; the fields below are the ones the controller reads and writes
  (\<^verbatim>\<open>workload.Spec.Replicas\<close>, \<^verbatim>\<open>workload.Spec.PodSpec\<close>, \<^verbatim>\<open>workload.Status.Resources\<close>).
\<close>

record ContainerizedSpec =
  spec_Replicas :: "int32 option"
  spec_PodSpec :: PodSpec

record ContainerizedStatus =
  Conditions :: "Condition list"
  Resources :: "TypedReference list option"

record Containerized =
  TypeMeta :: TypeMeta
  ObjectMeta :: ObjectMeta
  Spec :: ContainerizedSpec
  Status :: ContainerizedStatus

subsection \<open>Constants of the controller\<close>

definition errRenderDeployment :: string where
  "errRenderDeployment = ''cannot render deployment''"

definition errRenderService :: string where
  "errRenderService = ''cannot render service''"

definition errApplyDeployment :: string where
  "errApplyDeployment = ''cannot apply the deployment''"

definition errApplyService :: string where
  "errApplyService = ''cannot apply the service''"

text \<open>\<^verbatim>\<open>schema.GroupVersion\<close> and its \<^verbatim>\<open>String\<close> method: the group is printed, followed by
  a slash, only when it is not empty.\<close>

record GroupVersion =
  Group :: string
  Version :: string

definition GroupVersion_String :: "GroupVersion \<Rightarrow> string" where
  "GroupVersion_String gv =
     (if length (Group gv) > 0 then Group gv @ ''/'' @ Version gv else Version gv)"

text \<open>\<^verbatim>\<open>reflect.TypeOf(appsv1.Deployment{}).Name()\<close> and \<^verbatim>\<open>appsv1.SchemeGroupVersion\<close>
  (group \<^verbatim>\<open>apps\<close>, version \<^verbatim>\<open>v1\<close>); the core group of \<^verbatim>\<open>corev1\<close> is the empty string.\<close>

definition deploymentKind :: string where
  "deploymentKind = ''Deployment''"

definition deploymentAPIVersion :: string where
  "deploymentAPIVersion = GroupVersion_String \<lparr>Group = ''apps'', Version = ''v1''\<rparr>"

definition serviceKind :: string where
  "serviceKind = ''Service''"

definition serviceAPIVersion :: string where
  "serviceAPIVersion = GroupVersion_String \<lparr>Group = '''', Version = ''v1''\<rparr>"

definition labelNameKey :: string where
  "labelNameKey = ''component.oam.dev/name''"

definition ServiceTypeClusterIP :: string where
  "ServiceTypeClusterIP = ''ClusterIP''"

subsection \<open>Library functions the render functions call\<close>

text \<open>Go's \<^verbatim>\<open>append\<close> of one element: appending to the nil slice allocates.\<close>

definition go_append :: "'a list option \<Rightarrow> 'a \<Rightarrow> 'a list option" where
  "go_append s x = (case s of None \<Rightarrow> Some [x] | Some xs \<Rightarrow> Some (xs @ [x]))"

text \<open>\<^verbatim>\<open>intstr.FromInt(val int)\<close> stores \<^verbatim>\<open>int32(val)\<close>; the argument is a Go \<^verbatim>\<open>int\<close>, that
  is an integer wider than 32 bits, so the conversion \<^verbatim>\<open>int(port.ContainerPort)\<close> is \<open>sint\<close>.\<close>

definition FromInt :: "int \<Rightarrow> IntOrString" where
  "FromInt val = IntVal (word_of_int val)"

text \<open>
  Modelled from the spec: \<^verbatim>\<open>util.PassLabelAndAnnotation\<close> is not under src. Section 4.1 of
  the spec: the labels and annotations of the declared workload "are propagated onto" the
  child "without overwriting the injected selector label". Every label and every annotation
  of the parent is copied onto the child, except where the child already has that key.
\<close>

definition PassLabelAndAnnotation :: "ObjectMeta \<Rightarrow> ObjectMeta \<Rightarrow> ObjectMeta" where
  "PassLabelAndAnnotation parentObj childObj =
     childObj\<lparr>Labels := Labels parentObj ++ Labels childObj,
              Annotations := Annotations parentObj ++ Annotations childObj\<rparr>"

text \<open>The \<^verbatim>\<open>runtime.Scheme\<close> of the reconciler, as far as the ownership binder consults it:
  whether a child of one type can be recorded as owned by an owner of another.\<close>

record Scheme =
  canOwn :: "TypeMeta \<Rightarrow> TypeMeta \<Rightarrow> bool"

text \<open>
  Modelled from the spec: \<^verbatim>\<open>ctrl.SetControllerReference\<close> is not under src. Section 4.2 of
  the spec: it "sets the back-reference from child to owner" and "fails with OwnershipError
  if the child's type cannot be represented as owned by the owner's type (e.g., cross-scope
  ownership), or if the owner lacks required identity metadata (no unique identifier yet)".
  It reaches the child through its metadata only.
\<close>

definition SetControllerReference ::
  "Containerized \<Rightarrow> TypeMeta \<Rightarrow> ObjectMeta \<Rightarrow> Scheme \<Rightarrow> error + ObjectMeta" where
  "SetControllerReference owner controlledType controlled scheme =
     (if \<not> canOwn scheme (TypeMeta owner) controlledType \<or> UID (ObjectMeta owner) = ''''
      then Inl OwnershipError
      else Inr (controlled\<lparr>OwnerReferences :=
                  [\<lparr>ref_APIVersion = APIVersion (TypeMeta owner),
                    ref_Kind = Kind (TypeMeta owner),
                    ref_Name = Name (ObjectMeta owner),
                    ref_UID = UID (ObjectMeta owner),
                    Controller = True,
                    BlockOwnerDeletion = True\<rparr>]\<rparr>))"

subsection \<open>renderDeployment\<close>

text \<open>The struct literal of lines 157 to 182.\<close>

definition newDeployment :: "Containerized \<Rightarrow> Deployment" where
  "newDeployment workload =
     \<lparr>deploy_TypeMeta = \<lparr>Kind = deploymentKind, APIVersion = deploymentAPIVersion\<rparr>,
      deploy_ObjectMeta =
        \<lparr>Name = Name (ObjectMeta workload),
         Namespace = Namespace (ObjectMeta workload),
         UID = '''',
         Labels = Map.empty,
         Annotations = Map.empty,
         OwnerReferences = []\<rparr>,
      deploy_Spec =
        \<lparr>Replicas = spec_Replicas (Spec workload),
         Selector = Some \<lparr>MatchLabels = [labelNameKey \<mapsto> Name (ObjectMeta workload)]\<rparr>,
         Template =
           \<lparr>template_ObjectMeta =
              \<lparr>Name = '''',
               Namespace = '''',
               UID = '''',
               Labels = [labelNameKey \<mapsto> Name (ObjectMeta workload)],
               Annotations = Map.empty,
               OwnerReferences = []\<rparr>,
            template_Spec = spec_PodSpec (Spec workload)\<rparr>\<rparr>\<rparr>"

text \<open>Lines 183 to 186: labels and annotations are passed to the deployment, then to its
  pod template.\<close>

definition passToDeployment :: "Containerized \<Rightarrow> Deployment \<Rightarrow> Deployment" where
  "passToDeployment workload deploy =
     (let deploy1 = deploy\<lparr>deploy_ObjectMeta :=
            PassLabelAndAnnotation (ObjectMeta workload) (deploy_ObjectMeta deploy)\<rparr>
      in deploy1\<lparr>deploy_Spec := (deploy_Spec deploy1)\<lparr>Template :=
            (Template (deploy_Spec deploy1))\<lparr>template_ObjectMeta :=
               PassLabelAndAnnotation (ObjectMeta workload)
                 (template_ObjectMeta (Template (deploy_Spec deploy1)))\<rparr>\<rparr>\<rparr>)"

definition renderDeployment :: "Scheme \<Rightarrow> Containerized \<Rightarrow> error + Deployment" where
  "renderDeployment scheme workload =
     (let deploy = passToDeployment workload (newDeployment workload)
      in case SetControllerReference workload (deploy_TypeMeta deploy)
                (deploy_ObjectMeta deploy) scheme of
           Inl err \<Rightarrow> Inl err
         | Inr meta \<Rightarrow> Inr (deploy\<lparr>deploy_ObjectMeta := meta\<rparr>))"

subsection \<open>renderService\<close>

text \<open>The struct literal of lines 202 to 221.\<close>

definition newService :: "Containerized \<Rightarrow> Service" where
  "newService workload =
     \<lparr>service_TypeMeta = \<lparr>Kind = serviceKind, APIVersion = serviceAPIVersion\<rparr>,
      service_ObjectMeta =
        \<lparr>Name = Name (ObjectMeta workload),
         Namespace = Namespace (ObjectMeta workload),
         UID = '''',
         Labels = [labelNameKey \<mapsto> Name (ObjectMeta workload)],
         Annotations = Map.empty,
         OwnerReferences = []\<rparr>,
      service_Spec =
        \<lparr>service_Selector = [labelNameKey \<mapsto> Name (ObjectMeta workload)],
         service_Ports = Some [],
         service_Type = ServiceTypeClusterIP\<rparr>\<rparr>"

text \<open>The two nested loops of lines 223 to 235. The loop state is the slice
  \<^verbatim>\<open>service.Spec.Ports\<close> and the counter \<^verbatim>\<open>servicePort\<close>.\<close>

primrec portLoop ::
  "ContainerPort list \<Rightarrow> ServicePort list option \<times> int32 \<Rightarrow> ServicePort list option \<times> int32" where
  "portLoop [] st = st"
| "portLoop (port # rest) st =
     portLoop rest
       (go_append (fst st)
          \<lparr>sp_Name = port_Name port,
           sp_Protocol = Protocol port,
           Port = snd st,
           TargetPort = FromInt (sint (containerPort port))\<rparr>,
        snd st + 1)"

primrec containerLoop ::
  "Container list \<Rightarrow> ServicePort list option \<times> int32 \<Rightarrow> ServicePort list option \<times> int32" where
  "containerLoop [] st = st"
| "containerLoop (container # rest) st = containerLoop rest (portLoop (Ports container) st)"

definition renderService :: "Scheme \<Rightarrow> Containerized \<Rightarrow> error + Service" where
  "renderService scheme workload =
     (let service0 = newService workload;
          ports = fst (containerLoop (Containers (spec_PodSpec (Spec workload)))
                        (service_Ports (service_Spec service0), 8080));
          service = service0\<lparr>service_Spec := (service_Spec service0)\<lparr>service_Ports := ports\<rparr>\<rparr>
      in case SetControllerReference workload (service_TypeMeta service)
                (service_ObjectMeta service) scheme of
           Inl err \<Rightarrow> Inl err
         | Inr meta \<Rightarrow> Inr (service\<lparr>service_ObjectMeta := meta\<rparr>))"

subsection \<open>Typed references to the applied children\<close>

text \<open>\<^verbatim>\<open>schema.ParseGroupVersion\<close>: the empty string and a lone slash give the empty
  group and version, a string without a slash is a version of the core group, a string with
  one slash is split there, and more than one slash is an error.\<close>

definition ParseGroupVersion :: "string \<Rightarrow> error + GroupVersion" where
  "ParseGroupVersion gv =
     (if length gv = 0 \<or> gv = ''/'' then Inr \<lparr>Group = '''', Version = ''''\<rparr>
      else if count_list gv (CHR ''/'') = 0 then Inr \<lparr>Group = '''', Version = gv\<rparr>
      else if count_list gv (CHR ''/'') = 1
        then Inr \<lparr>Group = takeWhile (\<lambda>c. c \<noteq> CHR ''/'') gv,
                  Version = tl (dropWhile (\<lambda>c. c \<noteq> CHR ''/'') gv)\<rparr>
      else Inl (Failure (''unexpected GroupVersion string: '' @ gv)))"

record GroupVersionKind = GroupVersion +
  gvk_Kind :: string

text \<open>\<^verbatim>\<open>TypeMeta.GroupVersionKind\<close>, that is \<^verbatim>\<open>schema.FromAPIVersionAndKind\<close>: an API
  version that does not parse leaves group and version empty.\<close>

definition GroupVersionKind :: "TypeMeta \<Rightarrow> GroupVersionKind" where
  "GroupVersionKind obj =
     (case ParseGroupVersion (APIVersion obj) of
        Inr gv \<Rightarrow> \<lparr>Group = Group gv, Version = Version gv, gvk_Kind = Kind obj\<rparr>
      | Inl err \<Rightarrow> \<lparr>Group = '''', Version = '''', gvk_Kind = Kind obj\<rparr>)"

definition GroupVersion :: "GroupVersionKind \<Rightarrow> GroupVersion" where
  "GroupVersion gvk = \<lparr>Group = Group gvk, Version = Version gvk\<rparr>"

text \<open>One element of the slice literal of lines 132 to 145.\<close>

definition typedReference :: "TypeMeta \<Rightarrow> ObjectMeta \<Rightarrow> TypedReference" where
  "typedReference kind meta =
     \<lparr>ref_APIVersion = GroupVersion_String (GroupVersion (GroupVersionKind kind)),
      ref_Kind = gvk_Kind (GroupVersionKind kind),
      ref_Name = Name meta,
      ref_UID = UID meta\<rparr>"

subsection \<open>The collaborators of a reconciliation cycle\<close>

record NamespacedName =
  req_Namespace :: string
  req_Name :: string

record Request =
  NamespacedName :: NamespacedName

text \<open>\<^verbatim>\<open>ctrl.Result\<close>; the delay is a \<^verbatim>\<open>time.Duration\<close>, in nanoseconds.\<close>

record Result =
  Requeue :: bool
  RequeueAfter :: int

text \<open>The constructors \<^verbatim>\<open>event.Normal(reason, message)\<close> and
  \<^verbatim>\<open>event.Warning(reason, err)\<close>.\<close>

datatype Event = Normal string string | Warning string error

text \<open>The object an event is recorded against: the parent application configuration, or the
  workload itself.\<close>

datatype EventObj = ParentAppConfig NamespacedName | WorkloadItself Containerized

datatype PatchType = Merge

datatype PatchOption = ForceOwnership | FieldOwner string

text \<open>
  The receiver \<^verbatim>\<open>r\<close>: the embedded cluster client and the scheme. The client is an
  external collaborator; each of its methods is called at most once in a cycle, so its
  answers are given as functions of the arguments of the call. \<^verbatim>\<open>Patch\<close> and
  \<^verbatim>\<open>Status().Update\<close> overwrite the object they are given with the answer of the store.
\<close>

record ContainerizedReconciler =
  Get :: "NamespacedName \<Rightarrow> error + Containerized"
  PatchDeployment :: "Deployment \<Rightarrow> PatchType \<Rightarrow> PatchOption list \<Rightarrow> error + Deployment"
  PatchService :: "Service \<Rightarrow> PatchType \<Rightarrow> PatchOption list \<Rightarrow> error + Service"
  StatusUpdate :: "Containerized \<Rightarrow> error + Containerized"
  Scheme :: Scheme

text \<open>The package \<^verbatim>\<open>util\<close> of the OAM runtime, as far as \<^verbatim>\<open>Reconcile\<close> calls it: the
  lookup of the parent application configuration (an object or nil, and an error), the
  condition patch (an error or nil) and the fixed requeue outcome.\<close>

record Util =
  LocateParentAppConfig :: "Containerized \<Rightarrow> EventObj option \<times> error option"
  PatchCondition :: "Containerized \<Rightarrow> Condition \<Rightarrow> error option"
  ReconcileWaitResult :: Result

text \<open>What a cycle does to the outside, in program order: the patches it sends, the events
  it records, the conditions it reports and the status updates it sends.\<close>

datatype Effect =
    PatchDeploymentCall Deployment
  | PatchServiceCall Service
  | EventCall EventObj Event
  | PatchConditionCall Containerized Condition
  | StatusUpdateCall Containerized

definition IsNotFound :: "error \<Rightarrow> bool" where
  "IsNotFound err = (case err of NotFound m \<Rightarrow> True | _ \<Rightarrow> False)"

definition IgnoreNotFound :: "error \<Rightarrow> error option" where
  "IgnoreNotFound err = (if IsNotFound err then None else Some err)"

text \<open>\<^verbatim>\<open>fmt.Sprintf\<close> with the two format strings of lines 109 and 128; the character 96 is
  the backquote.\<close>

definition deploymentMessage :: "string \<Rightarrow> string \<Rightarrow> string" where
  "deploymentMessage workloadName deployName =
     ''Workload '' @ [char_of (96::nat)] @ workloadName @ [char_of (96::nat)] @
     '' successfully patched a deployment '' @ [char_of (96::nat)] @ deployName @ [char_of (96::nat)]"

definition serviceMessage :: "string \<Rightarrow> string \<Rightarrow> string" where
  "serviceMessage workloadName serviceName =
     ''Workload '' @ [char_of (96::nat)] @ workloadName @ [char_of (96::nat)] @
     '' successfully server side patched a service '' @ [char_of (96::nat)] @ serviceName @
     [char_of (96::nat)]"

subsection \<open>Reconcile\<close>

text \<open>Lines 87 to 92: the object that events are recorded against is the parent application
  configuration when the lookup returns one, and the workload itself otherwise.\<close>

definition reportingTarget :: "Util \<Rightarrow> Containerized \<Rightarrow> EventObj" where
  "reportingTarget util workload =
     (case fst (LocateParentAppConfig util workload) of
        None \<Rightarrow> WorkloadItself workload
      | Some obj \<Rightarrow> obj)"

text \<open>The result is the pair returned to the dispatcher (a \<^verbatim>\<open>ctrl.Result\<close> and an error
  or nil) together with the effects of the cycle.\<close>

definition Reconcile ::
  "Util \<Rightarrow> ContainerizedReconciler \<Rightarrow> Request \<Rightarrow> (Result \<times> error option) \<times> Effect list" where
  "Reconcile util r req =
     (case Get r (NamespacedName req) of
        Inl err \<Rightarrow> ((\<lparr>Requeue = False, RequeueAfter = 0\<rparr>, IgnoreNotFound err), [])
      | Inr workload \<Rightarrow>
       (let eventObj = reportingTarget util workload
        in (case renderDeployment (Scheme r) workload of
          Inl err \<Rightarrow>
            ((ReconcileWaitResult util,
              PatchCondition util workload (ReconcileError (Wrap err errRenderDeployment))),
             [EventCall eventObj (Warning errRenderDeployment err),
              PatchConditionCall workload (ReconcileError (Wrap err errRenderDeployment))])
        | Inr deploy0 \<Rightarrow>
         (let applyOpts = [ForceOwnership, FieldOwner (UID (ObjectMeta workload))]
          in (case PatchDeployment r deploy0 Merge applyOpts of
            Inl err \<Rightarrow>
              ((ReconcileWaitResult util,
                PatchCondition util workload (ReconcileError (Wrap err errApplyDeployment))),
               [PatchDeploymentCall deploy0,
                EventCall eventObj (Warning errApplyDeployment err),
                PatchConditionCall workload (ReconcileError (Wrap err errApplyDeployment))])
          | Inr deploy \<Rightarrow>
           (let done1 = [PatchDeploymentCall deploy0,
                         EventCall eventObj (Normal ''Deployment created''
                           (deploymentMessage (Name (ObjectMeta workload))
                              (Name (deploy_ObjectMeta deploy))))]
            in (case renderService (Scheme r) workload of
              Inl err \<Rightarrow>
                ((ReconcileWaitResult util,
                  PatchCondition util workload (ReconcileError (Wrap err errRenderService))),
                 done1 @
                 [EventCall eventObj (Warning errRenderService err),
                  PatchConditionCall workload (ReconcileError (Wrap err errRenderService))])
            | Inr service0 \<Rightarrow>
              (case PatchService r service0 Merge applyOpts of
                Inl err \<Rightarrow>
                  ((ReconcileWaitResult util,
                    PatchCondition util workload (ReconcileError (Wrap err errApplyService))),
                   done1 @
                   [PatchServiceCall service0,
                    EventCall eventObj (Warning errApplyDeployment err),
                    PatchConditionCall workload (ReconcileError (Wrap err errApplyService))])
              | Inr service \<Rightarrow>
               (let done2 = done1 @
                      [PatchServiceCall service0,
                       EventCall eventObj (Normal ''Service created''
                         (serviceMessage (Name (ObjectMeta workload))
                            (Name (service_ObjectMeta service))))];
                    workload1 = workload\<lparr>Status := (Status workload)\<lparr>Resources :=
                      Some [typedReference (deploy_TypeMeta deploy) (deploy_ObjectMeta deploy),
                            typedReference (service_TypeMeta service)
                              (service_ObjectMeta service)]\<rparr>\<rparr>
                in (case StatusUpdate r workload1 of
                  Inl err \<Rightarrow>
                    ((ReconcileWaitResult util, Some err), done2 @ [StatusUpdateCall workload1])
                | Inr workload2 \<Rightarrow>
                    ((\<lparr>Requeue = False, RequeueAfter = 0\<rparr>,
                      PatchCondition util workload2 ReconcileSuccess),
                     done2 @
                     [StatusUpdateCall workload1,
                      PatchConditionCall workload2 ReconcileSuccess])))))))))))"

subsection \<open>The service ports as the specification describes them\<close>

text \<open>The declared container ports of a workload: all containers in declaration order, the
  ports of each container in order.\<close>

definition declaredPorts :: "Containerized \<Rightarrow> ContainerPort list" where
  "declaredPorts workload = concat (map Ports (Containers (spec_PodSpec (Spec workload))))"

text \<open>The service port expected for the declared port at position \<open>i\<close> (counted from 0):
  name and protocol copied, external number 8080 plus \<open>i\<close>, target the declared number.\<close>

definition expectedPort :: "nat \<Rightarrow> ContainerPort \<Rightarrow> ServicePort" where
  "expectedPort i port =
     \<lparr>sp_Name = port_Name port,
      sp_Protocol = Protocol port,
      Port = 8080 + of_nat i,
      TargetPort = IntVal (containerPort port)\<rparr>"

subsection \<open>Concrete workloads and collaborators\<close>

definition allowAll :: Scheme where
  "allowAll = \<lparr>canOwn = (\<lambda>owner controlled. True)\<rparr>"

definition tcpPort :: "string \<Rightarrow> int32 \<Rightarrow> ContainerPort" where
  "tcpPort name number = \<lparr>port_Name = name, containerPort = number, Protocol = ''TCP''\<rparr>"

text \<open>A workload \<^verbatim>\<open>web\<close> with three replicas and two containers, the first declaring the
  ports 80 and 81, the second the port 443. It carries a label and an annotation of its
  own, and a label under the key of the component name.\<close>

definition web :: Containerized where
  "web =
     \<lparr>TypeMeta = \<lparr>Kind = ''Containerized'', APIVersion = ''standard.oam.dev/v1alpha1''\<rparr>,
      ObjectMeta =
        \<lparr>Name = ''web'',
         Namespace = ''default'',
         UID = ''uid-web'',
         Labels = [''team'' \<mapsto> ''shop'', labelNameKey \<mapsto> ''not-web''],
         Annotations = [''note'' \<mapsto> ''hello''],
         OwnerReferences = []\<rparr>,
      Spec =
        \<lparr>spec_Replicas = Some 3,
         spec_PodSpec =
           \<lparr>Containers =
              [\<lparr>container_Name = ''front'', Image = ''nginx'',
                Ports = [tcpPort ''http'' 80, tcpPort ''alt'' 81]\<rparr>,
               \<lparr>container_Name = ''tls'', Image = ''envoy'',
                Ports = [tcpPort ''https'' 443]\<rparr>]\<rparr>\<rparr>,
      Status = \<lparr>Conditions = [], Resources = None\<rparr>\<rparr>"

text \<open>The same workload under another name, and one whose containers declare no port.\<close>

definition api :: Containerized where
  "api = web\<lparr>ObjectMeta := (ObjectMeta web)\<lparr>Name := ''api''\<rparr>\<rparr>"

definition idle :: Containerized where
  "idle = web\<lparr>Spec := (Spec web)\<lparr>spec_PodSpec :=
     \<lparr>Containers = [\<lparr>container_Name = ''sleep'', Image = ''busybox'', Ports = []\<rparr>]\<rparr>\<rparr>\<rparr>"

text \<open>The reference to \<^verbatim>\<open>web\<close> as owner, and the two children rendered for \<^verbatim>\<open>web\<close>.\<close>

definition webOwner :: OwnerReference where
  "webOwner =
     \<lparr>ref_APIVersion = ''standard.oam.dev/v1alpha1'',
      ref_Kind = ''Containerized'',
      ref_Name = ''web'',
      ref_UID = ''uid-web'',
      Controller = True,
      BlockOwnerDeletion = True\<rparr>"

definition webDeployment :: Deployment where
  "webDeployment =
     \<lparr>deploy_TypeMeta = \<lparr>Kind = ''Deployment'', APIVersion = ''apps/v1''\<rparr>,
      deploy_ObjectMeta =
        \<lparr>Name = ''web'',
         Namespace = ''default'',
         UID = '''',
         Labels = [''team'' \<mapsto> ''shop'', labelNameKey \<mapsto> ''not-web''],
         Annotations = [''note'' \<mapsto> ''hello''],
         OwnerReferences = [webOwner]\<rparr>,
      deploy_Spec =
        \<lparr>Replicas = Some 3,
         Selector = Some \<lparr>MatchLabels = [labelNameKey \<mapsto> ''web'']\<rparr>,
         Template =
           \<lparr>template_ObjectMeta =
              \<lparr>Name = '''',
               Namespace = '''',
               UID = '''',
               Labels = [''team'' \<mapsto> ''shop'', labelNameKey \<mapsto> ''web''],
               Annotations = [''note'' \<mapsto> ''hello''],
               OwnerReferences = []\<rparr>,
            template_Spec = spec_PodSpec (Spec web)\<rparr>\<rparr>\<rparr>"

definition webService :: Service where
  "webService =
     \<lparr>service_TypeMeta = \<lparr>Kind = ''Service'', APIVersion = ''v1''\<rparr>,
      service_ObjectMeta =
        \<lparr>Name = ''web'',
         Namespace = ''default'',
         UID = '''',
         Labels = [labelNameKey \<mapsto> ''web''],
         Annotations = Map.empty,
         OwnerReferences = [webOwner]\<rparr>,
      service_Spec =
        \<lparr>service_Selector = [labelNameKey \<mapsto> ''web''],
         service_Ports =
           Some [\<lparr>sp_Name = ''http'', sp_Protocol = ''TCP'', Port = 8080, TargetPort = IntVal 80\<rparr>,
                 \<lparr>sp_Name = ''alt'', sp_Protocol = ''TCP'', Port = 8081, TargetPort = IntVal 81\<rparr>,
                 \<lparr>sp_Name = ''https'', sp_Protocol = ''TCP'', Port = 8082,
                  TargetPort = IntVal 443\<rparr>],
         service_Type = ''ClusterIP''\<rparr>\<rparr>"

text \<open>A request for \<^verbatim>\<open>web\<close>; a \<^verbatim>\<open>util\<close> package that finds no parent and reports every
  condition without error; and a cluster that holds at most one workload, answers a patch
  with the object it was sent, a unique identifier filled in, unless it is told to fail,
  and accepts every status update.\<close>

definition webRequest :: Request where
  "webRequest = \<lparr>NamespacedName = \<lparr>req_Namespace = ''default'', req_Name = ''web''\<rparr>\<rparr>"

definition quietUtil :: Util where
  "quietUtil =
     \<lparr>LocateParentAppConfig = (\<lambda>workload. (None, Some (Failure ''no parent''))),
      PatchCondition = (\<lambda>workload condition. None),
      ReconcileWaitResult = \<lparr>Requeue = False, RequeueAfter = 30000000000\<rparr>\<rparr>"

definition cluster ::
  "Containerized option \<Rightarrow> error option \<Rightarrow> error option \<Rightarrow> ContainerizedReconciler" where
  "cluster stored deployFailure serviceFailure =
     \<lparr>Get = (\<lambda>name. case stored of
                None \<Rightarrow> Inl (NotFound ''not found'')
              | Some workload \<Rightarrow>
                  if req_Name name = Name (ObjectMeta workload) \<and>
                     req_Namespace name = Namespace (ObjectMeta workload)
                  then Inr workload else Inl (NotFound ''not found'')),
      PatchDeployment = (\<lambda>deploy patchType opts. case deployFailure of
                Some err \<Rightarrow> Inl err
              | None \<Rightarrow> Inr (deploy\<lparr>deploy_ObjectMeta :=
                           (deploy_ObjectMeta deploy)\<lparr>UID := ''uid-deployment''\<rparr>\<rparr>)),
      PatchService = (\<lambda>service patchType opts. case serviceFailure of
                Some err \<Rightarrow> Inl err
              | None \<Rightarrow> Inr (service\<lparr>service_ObjectMeta :=
                           (service_ObjectMeta service)\<lparr>UID := ''uid-service''\<rparr>\<rparr>)),
      StatusUpdate = (\<lambda>workload. Inr workload),
      Scheme = allowAll\<rparr>"

subsection \<open>Notions used to state the properties of a cycle\<close>

text \<open>The patch options of line 101.\<close>

definition applyOptsOf :: "Containerized \<Rightarrow> PatchOption list" where
  "applyOptsOf workload = [ForceOwnership, FieldOwner (UID (ObjectMeta workload))]"

text \<open>An API version of the form \<^verbatim>\<open>version\<close> or \<^verbatim>\<open>group/version\<close> with a group that is
  not empty.\<close>

definition groupVersionShaped :: "string \<Rightarrow> bool" where
  "groupVersionShaped s =
     (count_list s (CHR ''/'') = 0 \<or> (count_list s (CHR ''/'') = 1 \<and> hd s \<noteq> CHR ''/''))"

text \<open>A scheme that cannot record any ownership, and one that can record the ownership of
  deployments only.\<close>

definition denyAll :: Scheme where
  "denyAll = \<lparr>canOwn = (\<lambda>owner controlled. False)\<rparr>"

definition deploymentsOnly :: Scheme where
  "deploymentsOnly = \<lparr>canOwn = (\<lambda>owner controlled. Kind controlled = ''Deployment'')\<rparr>"

text \<open>The workload \<^verbatim>\<open>web\<close> as an earlier cycle left it, with one reference in its status.\<close>

definition reconciledWeb :: Containerized where
  "reconciledWeb = web\<lparr>Status := (Status web)\<lparr>Resources :=
     Some [\<lparr>ref_APIVersion = ''apps/v1'', ref_Kind = ''Deployment'', ref_Name = ''web'',
            ref_UID = ''uid-old''\<rparr>]\<rparr>\<rparr>"


section \<open>Properties of the render functions\<close>

subsection \<open>The ports of the rendered service\<close>

lemma FromInt_sint: "FromInt (sint (x :: int32)) = IntVal x"
  by (simp add: FromInt_def)

lemma portLoop_eq:
  "portLoop ps (Some acc, 8080 + of_nat k) =
     (Some (acc @ map (\<lambda>(i, p). expectedPort i p) (enumerate k ps)), 8080 + of_nat (k + length ps))"
proof (induction ps arbitrary: acc k)
  case Nil
  show ?case by simp
next
  case (Cons p ps)
  have "portLoop (p # ps) (Some acc, 8080 + of_nat k) =
          portLoop ps (Some (acc @ [expectedPort k p]), 8080 + of_nat (Suc k))"
    by (simp add: go_append_def expectedPort_def FromInt_sint)
  also have "\<dots> = (Some ((acc @ [expectedPort k p]) @
                       map (\<lambda>(i, p). expectedPort i p) (enumerate (Suc k) ps)),
                    8080 + of_nat (Suc k + length ps))"
    by (rule Cons.IH)
  finally show ?case by simp
qed

lemma containerLoop_eq:
  "containerLoop cs (Some acc, 8080 + of_nat k) =
     (Some (acc @ map (\<lambda>(i, p). expectedPort i p) (enumerate k (concat (map Ports cs)))),
      8080 + of_nat (k + length (concat (map Ports cs))))"
proof (induction cs arbitrary: acc k)
  case Nil
  show ?case by simp
next
  case (Cons c cs)
  have "containerLoop (c # cs) (Some acc, 8080 + of_nat k) =
          containerLoop cs (Some (acc @ map (\<lambda>(i, p). expectedPort i p) (enumerate k (Ports c))),
                            8080 + of_nat (k + length (Ports c)))"
    by (simp only: containerLoop.simps portLoop_eq)
  also have "\<dots> = (Some ((acc @ map (\<lambda>(i, p). expectedPort i p) (enumerate k (Ports c))) @
                       map (\<lambda>(i, p). expectedPort i p)
                         (enumerate (k + length (Ports c)) (concat (map Ports cs)))),
                    8080 + of_nat (k + length (Ports c) + length (concat (map Ports cs))))"
    by (rule Cons.IH)
  finally show ?case
    by (simp add: enumerate_append_eq add.assoc del: of_nat_add)
qed

lemma containerLoop_start:
  "containerLoop cs (Some [], 8080) =
     (Some (map (\<lambda>(i, p). expectedPort i p) (enumerate 0 (concat (map Ports cs)))),
      8080 + of_nat (length (concat (map Ports cs))))"
  using containerLoop_eq [of cs "[]" 0] by simp

lemma renderService_Inr:
  "renderService scheme workload = Inr service \<Longrightarrow>
     service_TypeMeta service = service_TypeMeta (newService workload) \<and>
     service_Spec service = (service_Spec (newService workload))
       \<lparr>service_Ports :=
          fst (containerLoop (Containers (spec_PodSpec (Spec workload))) (Some [], 8080))\<rparr>"
  by (auto simp: renderService_def Let_def newService_def split: sum.splits)

lemma renderService_Ports_enumerated:
  assumes "renderService scheme workload = Inr service"
  shows "service_Ports (service_Spec service) =
           Some (map (\<lambda>(i, p). expectedPort i p) (enumerate 0 (declaredPorts workload)))"
  using renderService_Inr [OF assms]
  by (simp add: newService_def containerLoop_start declaredPorts_def)

lemma sint_port: "sint (8080 + of_nat i :: int32) = 8080 + int i" if "i < 2147475568"
proof -
  have "(8080 + of_nat i :: int32) = word_of_int (8080 + int i)" by simp
  moreover have "sint (word_of_int (8080 + int i) :: int32) = 8080 + int i"
    using that by (simp only: sint_sbintrunc') (simp add: signed_take_bit_int_eq_self)
  ultimately show ?thesis by simp
qed

lemma map_sint_expected:
  "k + length ps \<le> 2147475568 \<Longrightarrow>
     map (\<lambda>sp. sint (Port sp)) (map (\<lambda>(i, p). expectedPort i p) (enumerate k ps)) =
     map (\<lambda>i. 8080 + int i) [k..<k + length ps]"
proof (induction ps arbitrary: k)
  case Nil
  show ?case by simp
next
  case (Cons p ps)
  have "k < 2147475568" using Cons.prems by simp
  then have "sint (Port (expectedPort k p)) = 8080 + int k"
    by (simp add: expectedPort_def sint_port)
  moreover have "map (\<lambda>sp. sint (Port sp))
                   (map (\<lambda>(i, p). expectedPort i p) (enumerate (Suc k) ps)) =
                 map (\<lambda>i. 8080 + int i) [Suc k..<Suc k + length ps]"
    using Cons.prems by (intro Cons.IH) simp
  moreover have "[k..<k + length (p # ps)] = k # [Suc k..<Suc k + length ps]"
    using upt_conv_Cons [of k "k + length (p # ps)"] by simp
  ultimately show ?case
    by simp
qed

lemma two_containers_three_ports:
  assumes h: "map (\<lambda>c. map containerPort (Ports c)) cs = [[80, 81], [443]]"
  shows "\<exists>c1 c2 p1 p2 p3. cs = [c1, c2] \<and> Ports c1 = [p1, p2] \<and> Ports c2 = [p3] \<and>
     containerPort p1 = 80 \<and> containerPort p2 = 81 \<and> containerPort p3 = 443"
proof -
  obtain c1 c2 where cs: "cs = [c1, c2]"
      and c1: "map containerPort (Ports c1) = [80, 81]"
      and c2: "map containerPort (Ports c2) = [443]"
    using h by (auto simp: map_eq_Cons_conv)
  obtain p1 p2 where p12: "Ports c1 = [p1, p2]" "containerPort p1 = 80" "containerPort p2 = 81"
    using c1 by (auto simp: map_eq_Cons_conv)
  obtain p3 where p3: "Ports c2 = [p3]" "containerPort p3 = 443"
    using c2 by (auto simp: map_eq_Cons_conv)
  show ?thesis using cs p12 p3 by blast
qed

lemma example_ports:
  assumes h: "map (\<lambda>c. map containerPort (Ports c)) (Containers (spec_PodSpec (Spec workload))) =
                [[80, 81], [443]]"
  shows "map (\<lambda>sp. (Port sp, TargetPort sp))
           (map (\<lambda>(i, p). expectedPort i p) (enumerate 0 (declaredPorts workload))) =
         [(8080, IntVal 80), (8081, IntVal 81), (8082, IntVal 443)]"
proof -
  obtain c1 c2 p1 p2 p3 where cs: "Containers (spec_PodSpec (Spec workload)) = [c1, c2]"
    and ps: "Ports c1 = [p1, p2]" "Ports c2 = [p3]"
    and vs: "containerPort p1 = 80" "containerPort p2 = 81" "containerPort p3 = 443"
    using two_containers_three_ports [OF h] by blast
  have "declaredPorts workload = [p1, p2, p3]"
    by (simp add: declaredPorts_def cs ps)
  then show ?thesis
    by (simp add: expectedPort_def vs)
qed

text \<open>
  Claim C1. Whenever \<^verbatim>\<open>renderService\<close> returns a service, its port list has exactly one
  entry per declared container port, containers in declaration order and the ports of each
  container in order; the entry at position \<open>i\<close> copies name and protocol, targets the
  declared port number and has the external number 8080 plus \<open>i\<close> (in \<^verbatim>\<open>int32\<close> arithmetic,
  which is the plain sum as long as fewer than \<open>2^31 - 8080\<close> ports are declared). In
  particular the containers with ports 80 and 81, and 443, give the external and target
  numbers (8080, 80), (8081, 81), (8082, 443), in this order.
\<close>

theorem renderService_ports:
  assumes "renderService scheme workload = Inr service"
  shows "\<exists>ports. service_Ports (service_Spec service) = Some ports \<and>
            ports = map (\<lambda>(i, p). expectedPort i p) (enumerate 0 (declaredPorts workload)) \<and>
            (length (declaredPorts workload) \<le> 2147475568 \<longrightarrow>
               map (\<lambda>sp. sint (Port sp)) ports =
               map (\<lambda>i. 8080 + int i) [0..<length (declaredPorts workload)]) \<and>
            (map (\<lambda>c. map containerPort (Ports c)) (Containers (spec_PodSpec (Spec workload))) =
               [[80, 81], [443]] \<longrightarrow>
               map (\<lambda>sp. (Port sp, TargetPort sp)) ports =
               [(8080, IntVal 80), (8081, IntVal 81), (8082, IntVal 443)])"
proof (intro exI conjI impI)
  show "service_Ports (service_Spec service) =
          Some (map (\<lambda>(i, p). expectedPort i p) (enumerate 0 (declaredPorts workload)))"
    by (rule renderService_Ports_enumerated [OF assms])
  show "map (\<lambda>(i, p). expectedPort i p) (enumerate 0 (declaredPorts workload)) =
        map (\<lambda>(i, p). expectedPort i p) (enumerate 0 (declaredPorts workload))"
    by (rule refl)
  show "map (\<lambda>sp. sint (Port sp))
          (map (\<lambda>(i, p). expectedPort i p) (enumerate 0 (declaredPorts workload))) =
        map (\<lambda>i. 8080 + int i) [0..<length (declaredPorts workload)]"
    if "length (declaredPorts workload) \<le> 2147475568"
    using map_sint_expected [of 0 "declaredPorts workload"] that by simp
  show "map (\<lambda>sp. (Port sp, TargetPort sp))
           (map (\<lambda>(i, p). expectedPort i p) (enumerate 0 (declaredPorts workload))) =
         [(8080, IntVal 80), (8081, IntVal 81), (8082, IntVal 443)]"
    if "map (\<lambda>c. map containerPort (Ports c)) (Containers (spec_PodSpec (Spec workload))) =
               [[80, 81], [443]]"
    by (rule example_ports [OF that])
qed

lemma renderService_web:
  "\<exists>service. renderService allowAll web = Inr service"
  by (simp add: renderService_def SetControllerReference_def allowAll_def web_def Let_def)

lemma web_containers:
  "map (\<lambda>c. map containerPort (Ports c)) (Containers (spec_PodSpec (Spec web))) = [[80, 81], [443]]"
  by (simp add: web_def tcpPort_def)

lemma web_declaredPorts:
  "declaredPorts web = [tcpPort ''http'' 80, tcpPort ''alt'' 81, tcpPort ''https'' 443]"
  by (simp add: declaredPorts_def web_def)

theorem renderService_ports_witness:
  "\<exists>service ports.
      renderService allowAll web = Inr service \<and>
      length (declaredPorts web) \<le> 2147475568 \<and>
      map (\<lambda>c. map containerPort (Ports c)) (Containers (spec_PodSpec (Spec web))) =
        [[80, 81], [443]] \<and>
      service_Ports (service_Spec service) = Some ports \<and>
      map sp_Name ports = [''http'', ''alt'', ''https''] \<and>
      map (\<lambda>sp. sint (Port sp)) ports = [8080, 8081, 8082] \<and>
      map (\<lambda>sp. (Port sp, TargetPort sp)) ports =
        [(8080, IntVal 80), (8081, IntVal 81), (8082, IntVal 443)]"
proof -
  obtain service where r: "renderService allowAll web = Inr service"
    using renderService_web by blast
  have len: "length (declaredPorts web) \<le> 2147475568"
    by (simp add: web_declaredPorts)
  from renderService_ports [OF r] obtain ports where p: "service_Ports (service_Spec service) = Some ports"
    and e: "ports = map (\<lambda>(i, p). expectedPort i p) (enumerate 0 (declaredPorts web))"
    and s0: "length (declaredPorts web) \<le> 2147475568 \<longrightarrow>
               map (\<lambda>sp. sint (Port sp)) ports =
               map (\<lambda>i. 8080 + int i) [0..<length (declaredPorts web)]"
    and x0: "map (\<lambda>c. map containerPort (Ports c)) (Containers (spec_PodSpec (Spec web))) =
               [[80, 81], [443]] \<longrightarrow>
               map (\<lambda>sp. (Port sp, TargetPort sp)) ports =
               [(8080, IntVal 80), (8081, IntVal 81), (8082, IntVal 443)]"
    by (elim exE conjE)
  have s: "map (\<lambda>sp. sint (Port sp)) ports = map (\<lambda>i. 8080 + int i) [0..<length (declaredPorts web)]"
    using s0 len by (rule mp)
  have x: "map (\<lambda>sp. (Port sp, TargetPort sp)) ports =
              [(8080, IntVal 80), (8081, IntVal 81), (8082, IntVal 443)]"
    using x0 web_containers by (rule mp)
  have n: "map sp_Name ports = [''http'', ''alt'', ''https'']"
    by (simp add: e web_declaredPorts expectedPort_def tcpPort_def)
  have s': "map (\<lambda>sp. sint (Port sp)) ports = [8080, 8081, 8082]"
    using s by (simp add: web_declaredPorts upt_rec [of 0] upt_rec [of 1] upt_rec [of 2])
  show ?thesis
    by (intro exI [of _ service] exI [of _ ports] conjI r len web_containers p n s' x)
qed

subsection \<open>What binding the owner leaves alone\<close>

lemma renderDeployment_Inr:
  "renderDeployment scheme workload = Inr deploy \<Longrightarrow>
     deploy_TypeMeta deploy = deploy_TypeMeta (newDeployment workload) \<and>
     deploy_Spec deploy = deploy_Spec (passToDeployment workload (newDeployment workload)) \<and>
     Labels (deploy_ObjectMeta deploy) =
       Labels (deploy_ObjectMeta (passToDeployment workload (newDeployment workload))) \<and>
     Annotations (deploy_ObjectMeta deploy) =
       Annotations (deploy_ObjectMeta (passToDeployment workload (newDeployment workload)))"
  by (auto simp: renderDeployment_def SetControllerReference_def Let_def passToDeployment_def
           split: sum.splits if_splits)

lemma renderService_meta:
  "renderService scheme workload = Inr service \<Longrightarrow>
     Labels (service_ObjectMeta service) = Labels (service_ObjectMeta (newService workload)) \<and>
     Annotations (service_ObjectMeta service) =
       Annotations (service_ObjectMeta (newService workload))"
  by (auto simp: renderService_def SetControllerReference_def Let_def
           split: sum.splits if_splits)

lemma renderDeployment_web: "renderDeployment allowAll web = Inr webDeployment"
  by (simp add: renderDeployment_def SetControllerReference_def allowAll_def web_def Let_def
        passToDeployment_def newDeployment_def PassLabelAndAnnotation_def webDeployment_def
        webOwner_def deploymentKind_def deploymentAPIVersion_def GroupVersion_String_def)

lemma renderService_web_eq: "renderService allowAll web = Inr webService"
  by (simp add: renderService_def SetControllerReference_def allowAll_def web_def Let_def
        newService_def webService_def webOwner_def serviceKind_def serviceAPIVersion_def
        GroupVersion_String_def ServiceTypeClusterIP_def tcpPort_def go_append_def FromInt_def)

lemma renderService_idle:
  "renderService allowAll idle =
     Inr (webService\<lparr>service_Spec := (service_Spec webService)\<lparr>service_Ports := Some []\<rparr>\<rparr>)"
  by (simp add: renderService_def SetControllerReference_def allowAll_def web_def idle_def Let_def
        newService_def webService_def webOwner_def serviceKind_def serviceAPIVersion_def
        GroupVersion_String_def ServiceTypeClusterIP_def)

lemma renderDeployment_api:
  "renderDeployment allowAll api =
     Inr (passToDeployment api (newDeployment api)
            \<lparr>deploy_ObjectMeta :=
               (deploy_ObjectMeta (passToDeployment api (newDeployment api)))
                 \<lparr>OwnerReferences := [webOwner\<lparr>ref_Name := ''api''\<rparr>]\<rparr>\<rparr>)"
  by (simp add: renderDeployment_def SetControllerReference_def allowAll_def web_def api_def
        Let_def webOwner_def)

subsection \<open>The rendered service\<close>

text \<open>
  Claim C10. Whenever \<^verbatim>\<open>renderService\<close> returns a service, for any workload, the type of
  the service is \<^verbatim>\<open>ClusterIP\<close> and its port list is allocated, never the nil slice; for a
  workload whose containers declare no port at all the port list is the empty list.
\<close>

theorem renderService_type_and_empty_ports:
  assumes "renderService scheme workload = Inr service"
  shows "service_Type (service_Spec service) = ServiceTypeClusterIP \<and>
         service_Ports (service_Spec service) \<noteq> None \<and>
         (declaredPorts workload = [] \<longrightarrow> service_Ports (service_Spec service) = Some [])"
proof (intro conjI impI)
  show "service_Type (service_Spec service) = ServiceTypeClusterIP"
    using renderService_Inr [OF assms] by (simp add: newService_def)
  show "service_Ports (service_Spec service) \<noteq> None"
    by (simp add: renderService_Ports_enumerated [OF assms])
  show "service_Ports (service_Spec service) = Some []" if "declaredPorts workload = []"
    by (simp add: renderService_Ports_enumerated [OF assms] that)
qed

theorem renderService_type_and_empty_ports_witness:
  "renderService allowAll idle =
     Inr (webService\<lparr>service_Spec := (service_Spec webService)\<lparr>service_Ports := Some []\<rparr>\<rparr>) \<and>
   declaredPorts idle = [] \<and>
   service_Type (service_Spec
     (webService\<lparr>service_Spec := (service_Spec webService)\<lparr>service_Ports := Some []\<rparr>\<rparr>)) =
     ''ClusterIP'' \<and>
   service_Ports (service_Spec
     (webService\<lparr>service_Spec := (service_Spec webService)\<lparr>service_Ports := Some []\<rparr>\<rparr>)) =
     Some []"
proof -
  have d: "declaredPorts idle = []"
    by (simp add: declaredPorts_def idle_def)
  show ?thesis
    using renderService_type_and_empty_ports [OF renderService_idle] d renderService_idle
    by (simp add: ServiceTypeClusterIP_def)
qed

subsection \<open>The rendered deployment\<close>

text \<open>
  Claim C6. Whenever \<^verbatim>\<open>renderDeployment\<close> returns a deployment, its replica count is the
  replica count of the workload, the specification of its pod template is the pod
  specification of the workload, its selector is exactly the label that maps the
  component-name key to the name of the workload, and the labels of its pod template map
  that key to the name of the workload, whatever label the workload carried under that key.
\<close>

theorem renderDeployment_replicas_template_selector:
  assumes "renderDeployment scheme workload = Inr deploy"
  shows "Replicas (deploy_Spec deploy) = spec_Replicas (Spec workload) \<and>
         template_Spec (Template (deploy_Spec deploy)) = spec_PodSpec (Spec workload) \<and>
         Selector (deploy_Spec deploy) =
           Some \<lparr>MatchLabels = [labelNameKey \<mapsto> Name (ObjectMeta workload)]\<rparr> \<and>
         Labels (template_ObjectMeta (Template (deploy_Spec deploy))) labelNameKey =
           Some (Name (ObjectMeta workload))"
  using renderDeployment_Inr [OF assms]
  by (simp add: passToDeployment_def newDeployment_def PassLabelAndAnnotation_def Let_def)

theorem renderDeployment_replicas_template_selector_witness:
  "renderDeployment allowAll web = Inr webDeployment \<and>
   Labels (ObjectMeta web) labelNameKey = Some ''not-web'' \<and>
   Replicas (deploy_Spec webDeployment) = Some 3 \<and>
   template_Spec (Template (deploy_Spec webDeployment)) = spec_PodSpec (Spec web) \<and>
   Selector (deploy_Spec webDeployment) = Some \<lparr>MatchLabels = [labelNameKey \<mapsto> ''web'']\<rparr> \<and>
   Labels (template_ObjectMeta (Template (deploy_Spec webDeployment))) labelNameKey = Some ''web''"
  using renderDeployment_replicas_template_selector [OF renderDeployment_web] renderDeployment_web
  by (simp add: web_def)

text \<open>
  Claim C8. Two workloads with different names are rendered to deployments with different
  selectors.
\<close>

theorem renderDeployment_selectors_differ:
  assumes "renderDeployment schemeA a = Inr deployA"
    and "renderDeployment schemeB b = Inr deployB"
    and "Name (ObjectMeta a) \<noteq> Name (ObjectMeta b)"
  shows "Selector (deploy_Spec deployA) \<noteq> Selector (deploy_Spec deployB)"
proof
  assume eq: "Selector (deploy_Spec deployA) = Selector (deploy_Spec deployB)"
  have "Selector (deploy_Spec deployA) =
          Some \<lparr>MatchLabels = [labelNameKey \<mapsto> Name (ObjectMeta a)]\<rparr>"
    using renderDeployment_Inr [OF assms(1)]
    by (simp add: passToDeployment_def newDeployment_def Let_def)
  moreover have "Selector (deploy_Spec deployB) =
          Some \<lparr>MatchLabels = [labelNameKey \<mapsto> Name (ObjectMeta b)]\<rparr>"
    using renderDeployment_Inr [OF assms(2)]
    by (simp add: passToDeployment_def newDeployment_def Let_def)
  ultimately have "[labelNameKey \<mapsto> Name (ObjectMeta a)] = [labelNameKey \<mapsto> Name (ObjectMeta b)]"
    using eq by simp
  then have "Name (ObjectMeta a) = Name (ObjectMeta b)"
    by (rule map_upd_eqD1)
  with assms(3) show False by simp
qed

theorem renderDeployment_selectors_differ_witness:
  "renderDeployment allowAll web = Inr webDeployment \<and>
   renderDeployment allowAll api =
     Inr (passToDeployment api (newDeployment api)
            \<lparr>deploy_ObjectMeta :=
               (deploy_ObjectMeta (passToDeployment api (newDeployment api)))
                 \<lparr>OwnerReferences := [webOwner\<lparr>ref_Name := ''api''\<rparr>]\<rparr>\<rparr>) \<and>
   Name (ObjectMeta web) \<noteq> Name (ObjectMeta api) \<and>
   Selector (deploy_Spec webDeployment) \<noteq>
   Selector (deploy_Spec (passToDeployment api (newDeployment api)
            \<lparr>deploy_ObjectMeta :=
               (deploy_ObjectMeta (passToDeployment api (newDeployment api)))
                 \<lparr>OwnerReferences := [webOwner\<lparr>ref_Name := ''api''\<rparr>]\<rparr>\<rparr>))"
proof -
  have n: "Name (ObjectMeta web) \<noteq> Name (ObjectMeta api)"
    by (simp add: web_def api_def)
  show ?thesis
    using renderDeployment_selectors_differ [OF renderDeployment_web renderDeployment_api n]
      renderDeployment_web renderDeployment_api n
    by (intro conjI)
qed

subsection \<open>Labels and annotations of the workload\<close>

text \<open>
  Claim C7, as stated, fails for the rendered service: \<^verbatim>\<open>renderService\<close> passes neither the
  labels nor the annotations of the workload on. The workload \<^verbatim>\<open>web\<close> carries the label
  \<^verbatim>\<open>team\<close> and the annotation \<^verbatim>\<open>note\<close>; its service carries neither.
\<close>

theorem renderService_drops_labels_counterexample:
  "renderService allowAll web = Inr webService \<and>
   Labels (ObjectMeta web) ''team'' = Some ''shop'' \<and>
   Labels (service_ObjectMeta webService) ''team'' = None \<and>
   Annotations (ObjectMeta web) ''note'' = Some ''hello'' \<and>
   Annotations (service_ObjectMeta webService) ''note'' = None"
  by (simp add: renderService_web_eq) (simp add: web_def webService_def labelNameKey_def)

text \<open>
  Claim C7, amended. Rendering the deployment passes the labels and annotations of the
  workload onto the deployment and onto its pod template; the injected component-name label
  of the pod template and the selector keep the name of the workload, also when the
  workload carries a label of that key. Rendering the service passes nothing on: the
  service carries the component-name label alone, and no annotation.
\<close>

theorem render_labels_and_annotations:
  "(renderDeployment scheme workload = Inr deploy \<longrightarrow>
      Labels (deploy_ObjectMeta deploy) = Labels (ObjectMeta workload) \<and>
      Annotations (deploy_ObjectMeta deploy) = Annotations (ObjectMeta workload) \<and>
      Labels (template_ObjectMeta (Template (deploy_Spec deploy))) =
        (Labels (ObjectMeta workload))(labelNameKey \<mapsto> Name (ObjectMeta workload)) \<and>
      Annotations (template_ObjectMeta (Template (deploy_Spec deploy))) =
        Annotations (ObjectMeta workload) \<and>
      Selector (deploy_Spec deploy) =
        Some \<lparr>MatchLabels = [labelNameKey \<mapsto> Name (ObjectMeta workload)]\<rparr>) \<and>
   (renderService scheme workload = Inr service \<longrightarrow>
      Labels (service_ObjectMeta service) = [labelNameKey \<mapsto> Name (ObjectMeta workload)] \<and>
      Annotations (service_ObjectMeta service) = Map.empty)"
proof (intro conjI impI)
  assume d: "renderDeployment scheme workload = Inr deploy"
  note facts = renderDeployment_Inr [OF d]
  show "Labels (deploy_ObjectMeta deploy) = Labels (ObjectMeta workload)"
    using facts by (simp add: passToDeployment_def newDeployment_def PassLabelAndAnnotation_def Let_def)
  show "Annotations (deploy_ObjectMeta deploy) = Annotations (ObjectMeta workload)"
    using facts by (simp add: passToDeployment_def newDeployment_def PassLabelAndAnnotation_def Let_def)
  show "Labels (template_ObjectMeta (Template (deploy_Spec deploy))) =
        (Labels (ObjectMeta workload))(labelNameKey \<mapsto> Name (ObjectMeta workload))"
    using facts by (simp add: passToDeployment_def newDeployment_def PassLabelAndAnnotation_def Let_def)
  show "Annotations (template_ObjectMeta (Template (deploy_Spec deploy))) =
        Annotations (ObjectMeta workload)"
    using facts by (simp add: passToDeployment_def newDeployment_def PassLabelAndAnnotation_def Let_def)
  show "Selector (deploy_Spec deploy) =
        Some \<lparr>MatchLabels = [labelNameKey \<mapsto> Name (ObjectMeta workload)]\<rparr>"
    using facts by (simp add: passToDeployment_def newDeployment_def Let_def)
next
  assume s: "renderService scheme workload = Inr service"
  show "Labels (service_ObjectMeta service) = [labelNameKey \<mapsto> Name (ObjectMeta workload)]"
    using renderService_meta [OF s] by (simp add: newService_def)
  show "Annotations (service_ObjectMeta service) = Map.empty"
    using renderService_meta [OF s] by (simp add: newService_def)
qed

theorem render_labels_and_annotations_witness:
  "renderDeployment allowAll web = Inr webDeployment \<and>
   renderService allowAll web = Inr webService \<and>
   Labels (deploy_ObjectMeta webDeployment) ''team'' = Some ''shop'' \<and>
   Annotations (deploy_ObjectMeta webDeployment) ''note'' = Some ''hello'' \<and>
   Labels (template_ObjectMeta (Template (deploy_Spec webDeployment))) ''team'' = Some ''shop'' \<and>
   Labels (template_ObjectMeta (Template (deploy_Spec webDeployment))) labelNameKey = Some ''web'' \<and>
   Annotations (template_ObjectMeta (Template (deploy_Spec webDeployment))) ''note'' =
     Some ''hello'' \<and>
   Labels (service_ObjectMeta webService) = [labelNameKey \<mapsto> ''web''] \<and>
   Annotations (service_ObjectMeta webService) = Map.empty"
  using render_labels_and_annotations [of allowAll web webDeployment webService]
    renderDeployment_web renderService_web_eq
  by (simp add: web_def labelNameKey_def)

section \<open>Properties of the reconciliation cycle\<close>

subsection \<open>The outcome of a cycle, branch by branch\<close>

lemma Reconcile_get_fails:
  assumes "Get r (NamespacedName req) = Inl err"
  shows "Reconcile util r req = ((\<lparr>Requeue = False, RequeueAfter = 0\<rparr>, IgnoreNotFound err), [])"
  using assms by (simp add: Reconcile_def)

lemma Reconcile_render_deployment_fails:
  assumes "Get r (NamespacedName req) = Inr workload"
    and "renderDeployment (Scheme r) workload = Inl err"
  shows "Reconcile util r req =
           ((ReconcileWaitResult util,
             PatchCondition util workload (ReconcileError (Wrap err errRenderDeployment))),
            [EventCall (reportingTarget util workload) (Warning errRenderDeployment err),
             PatchConditionCall workload (ReconcileError (Wrap err errRenderDeployment))])"
  using assms by (simp add: Reconcile_def Let_def)

lemma Reconcile_apply_deployment_fails:
  assumes "Get r (NamespacedName req) = Inr workload"
    and "renderDeployment (Scheme r) workload = Inr deploy0"
    and "PatchDeployment r deploy0 Merge (applyOptsOf workload) = Inl err"
  shows "Reconcile util r req =
           ((ReconcileWaitResult util,
             PatchCondition util workload (ReconcileError (Wrap err errApplyDeployment))),
            [PatchDeploymentCall deploy0,
             EventCall (reportingTarget util workload) (Warning errApplyDeployment err),
             PatchConditionCall workload (ReconcileError (Wrap err errApplyDeployment))])"
  using assms by (simp add: Reconcile_def Let_def applyOptsOf_def)

lemma Reconcile_render_service_fails:
  assumes "Get r (NamespacedName req) = Inr workload"
    and "renderDeployment (Scheme r) workload = Inr deploy0"
    and "PatchDeployment r deploy0 Merge (applyOptsOf workload) = Inr deploy"
    and "renderService (Scheme r) workload = Inl err"
  shows "Reconcile util r req =
           ((ReconcileWaitResult util,
             PatchCondition util workload (ReconcileError (Wrap err errRenderService))),
            [PatchDeploymentCall deploy0,
             EventCall (reportingTarget util workload) (Normal ''Deployment created''
               (deploymentMessage (Name (ObjectMeta workload)) (Name (deploy_ObjectMeta deploy)))),
             EventCall (reportingTarget util workload) (Warning errRenderService err),
             PatchConditionCall workload (ReconcileError (Wrap err errRenderService))])"
  using assms by (simp add: Reconcile_def Let_def applyOptsOf_def)

lemma Reconcile_apply_service_fails:
  assumes "Get r (NamespacedName req) = Inr workload"
    and "renderDeployment (Scheme r) workload = Inr deploy0"
    and "PatchDeployment r deploy0 Merge (applyOptsOf workload) = Inr deploy"
    and "renderService (Scheme r) workload = Inr service0"
    and "PatchService r service0 Merge (applyOptsOf workload) = Inl err"
  shows "Reconcile util r req =
           ((ReconcileWaitResult util,
             PatchCondition util workload (ReconcileError (Wrap err errApplyService))),
            [PatchDeploymentCall deploy0,
             EventCall (reportingTarget util workload) (Normal ''Deployment created''
               (deploymentMessage (Name (ObjectMeta workload)) (Name (deploy_ObjectMeta deploy)))),
             PatchServiceCall service0,
             EventCall (reportingTarget util workload) (Warning errApplyDeployment err),
             PatchConditionCall workload (ReconcileError (Wrap err errApplyService))])"
  using assms by (simp add: Reconcile_def Let_def applyOptsOf_def)

lemma Reconcile_both_applied:
  assumes "Get r (NamespacedName req) = Inr workload"
    and "renderDeployment (Scheme r) workload = Inr deploy0"
    and "PatchDeployment r deploy0 Merge (applyOptsOf workload) = Inr deploy"
    and "renderService (Scheme r) workload = Inr service0"
    and "PatchService r service0 Merge (applyOptsOf workload) = Inr service"
    and "workload1 = workload\<lparr>Status := (Status workload)\<lparr>Resources :=
           Some [typedReference (deploy_TypeMeta deploy) (deploy_ObjectMeta deploy),
                 typedReference (service_TypeMeta service) (service_ObjectMeta service)]\<rparr>\<rparr>"
  shows "Reconcile util r req =
           ((case StatusUpdate r workload1 of
               Inl err \<Rightarrow> (ReconcileWaitResult util, Some err)
             | Inr workload2 \<Rightarrow> (\<lparr>Requeue = False, RequeueAfter = 0\<rparr>,
                                 PatchCondition util workload2 ReconcileSuccess)),
            [PatchDeploymentCall deploy0,
             EventCall (reportingTarget util workload) (Normal ''Deployment created''
               (deploymentMessage (Name (ObjectMeta workload)) (Name (deploy_ObjectMeta deploy)))),
             PatchServiceCall service0,
             EventCall (reportingTarget util workload) (Normal ''Service created''
               (serviceMessage (Name (ObjectMeta workload)) (Name (service_ObjectMeta service)))),
             StatusUpdateCall workload1] @
            (case StatusUpdate r workload1 of
               Inl err \<Rightarrow> []
             | Inr workload2 \<Rightarrow> [PatchConditionCall workload2 ReconcileSuccess]))"
  using assms by (simp add: Reconcile_def Let_def applyOptsOf_def split: sum.splits)


subsection \<open>The concrete cluster\<close>

lemma cluster_Get_web: "Get (cluster (Some web) a b) (NamespacedName webRequest) = Inr web"
  by (simp add: cluster_def webRequest_def web_def)

lemma cluster_Get_reconciledWeb:
  "Get (cluster (Some reconciledWeb) a b) (NamespacedName webRequest) = Inr reconciledWeb"
  by (simp add: cluster_def webRequest_def web_def reconciledWeb_def)

lemma cluster_Get_none:
  "Get (cluster None a b) (NamespacedName webRequest) = Inl (NotFound ''not found'')"
  by (simp add: cluster_def)

lemma cluster_Scheme: "Scheme (cluster s a b) = allowAll"
  by (simp add: cluster_def)

lemma cluster_PatchDeployment:
  "PatchDeployment (cluster s None b) deploy Merge opts =
     Inr (deploy\<lparr>deploy_ObjectMeta := (deploy_ObjectMeta deploy)\<lparr>UID := ''uid-deployment''\<rparr>\<rparr>)"
  by (simp add: cluster_def)

lemma cluster_PatchService:
  "PatchService (cluster s a None) service Merge opts =
     Inr (service\<lparr>service_ObjectMeta := (service_ObjectMeta service)\<lparr>UID := ''uid-service''\<rparr>\<rparr>)"
  by (simp add: cluster_def)

lemma cluster_PatchService_fails:
  "PatchService (cluster s a (Some err)) service Merge opts = Inl err"
  by (simp add: cluster_def)

lemma cluster_StatusUpdate: "StatusUpdate (cluster s a b) workload = Inr workload"
  by (simp add: cluster_def)

lemma reportingTarget_quiet: "reportingTarget quietUtil workload = WorkloadItself workload"
  by (simp add: reportingTarget_def quietUtil_def)

lemma quietUtil_wait:
  "ReconcileWaitResult quietUtil = \<lparr>Requeue = False, RequeueAfter = 30000000000\<rparr>"
  by (simp add: quietUtil_def)

lemma quietUtil_PatchCondition: "PatchCondition quietUtil workload condition = None"
  by (simp add: quietUtil_def)

lemma renderDeployment_ignores_Status:
  "renderDeployment scheme (workload\<lparr>Status := status\<rparr>) = renderDeployment scheme workload"
  by (simp add: renderDeployment_def SetControllerReference_def Let_def passToDeployment_def
        newDeployment_def)

lemma renderService_ignores_Status:
  "renderService scheme (workload\<lparr>Status := status\<rparr>) = renderService scheme workload"
  by (simp add: renderService_def SetControllerReference_def Let_def newService_def)

lemma renderDeployment_reconciledWeb: "renderDeployment allowAll reconciledWeb = Inr webDeployment"
  by (simp add: reconciledWeb_def renderDeployment_ignores_Status renderDeployment_web)

lemma renderService_reconciledWeb: "renderService allowAll reconciledWeb = Inr webService"
  by (simp add: reconciledWeb_def renderService_ignores_Status renderService_web_eq)

lemma Reconcile_web_service_conflict:
  "Reconcile quietUtil (cluster (Some web) None (Some (Failure ''conflict''))) webRequest =
     ((\<lparr>Requeue = False, RequeueAfter = 30000000000\<rparr>, None),
      [PatchDeploymentCall webDeployment,
       EventCall (WorkloadItself web)
         (Normal ''Deployment created'' (deploymentMessage ''web'' ''web'')),
       PatchServiceCall webService,
       EventCall (WorkloadItself web) (Warning ''cannot apply the deployment'' (Failure ''conflict'')),
       PatchConditionCall web
         (ReconcileError (Wrap (Failure ''conflict'') ''cannot apply the service''))])"
proof -
  let ?r = "cluster (Some web) None (Some (Failure ''conflict''))"
  have g: "Get ?r (NamespacedName webRequest) = Inr web"
    by (rule cluster_Get_web)
  have d: "renderDeployment (Scheme ?r) web = Inr webDeployment"
    by (simp add: cluster_Scheme renderDeployment_web)
  have pd: "PatchDeployment ?r webDeployment Merge (applyOptsOf web) =
              Inr (webDeployment\<lparr>deploy_ObjectMeta :=
                     (deploy_ObjectMeta webDeployment)\<lparr>UID := ''uid-deployment''\<rparr>\<rparr>)"
    by (rule cluster_PatchDeployment)
  have s: "renderService (Scheme ?r) web = Inr webService"
    by (simp add: cluster_Scheme renderService_web_eq)
  have ps: "PatchService ?r webService Merge (applyOptsOf web) = Inl (Failure ''conflict'')"
    by (rule cluster_PatchService_fails)
  have n: "Name (ObjectMeta web) = ''web''" "Name (deploy_ObjectMeta webDeployment) = ''web''"
    by (simp_all add: web_def webDeployment_def)
  show ?thesis
    unfolding Reconcile_apply_service_fails [OF g d pd s ps]
    by (simp add: quietUtil_wait quietUtil_PatchCondition reportingTarget_quiet n
          errApplyDeployment_def errApplyService_def)
qed


subsection \<open>A workload that is gone\<close>

text \<open>
  Claim C4. When the workload of the request is not found in the store, the cycle returns
  the empty result (no requeue, no delay) and no error, and it has no effect at all: it
  records no event and reports no condition.
\<close>

theorem Reconcile_not_found:
  assumes "Get r (NamespacedName req) = Inl err"
    and "IsNotFound err"
  shows "Reconcile util r req = ((\<lparr>Requeue = False, RequeueAfter = 0\<rparr>, None), [])"
  using assms by (simp add: Reconcile_get_fails IgnoreNotFound_def)

theorem Reconcile_not_found_witness:
  "Get (cluster None None None) (NamespacedName webRequest) = Inl (NotFound ''not found'') \<and>
   IsNotFound (NotFound ''not found'') \<and>
   Reconcile quietUtil (cluster None None None) webRequest =
     ((\<lparr>Requeue = False, RequeueAfter = 0\<rparr>, None), [])"
proof -
  have n: "IsNotFound (NotFound ''not found'')"
    by (simp add: IsNotFound_def)
  show ?thesis
    using Reconcile_not_found [OF cluster_Get_none n, where util = quietUtil] cluster_Get_none n
    by (intro conjI)
qed

subsection \<open>Failure of the ownership binding\<close>

text \<open>
  Claim C3, as stated, fails: the owner is bound inside the render functions, so a failure
  of the binding is reported as a failure to render. With a scheme that cannot record any
  ownership, the cycle for \<^verbatim>\<open>web\<close> records the warning "cannot render deployment" and
  reports the condition with the same classification; neither is a "cannot apply"
  classification.
\<close>

theorem ownership_failure_counterexample:
  "SetControllerReference web
     (deploy_TypeMeta (passToDeployment web (newDeployment web)))
     (deploy_ObjectMeta (passToDeployment web (newDeployment web))) denyAll = Inl OwnershipError \<and>
   Reconcile quietUtil ((cluster (Some web) None None)\<lparr>Scheme := denyAll\<rparr>) webRequest =
     ((\<lparr>Requeue = False, RequeueAfter = 30000000000\<rparr>, None),
      [EventCall (WorkloadItself web) (Warning ''cannot render deployment'' OwnershipError),
       PatchConditionCall web
         (ReconcileError (Wrap OwnershipError ''cannot render deployment''))]) \<and>
   ''cannot render deployment'' \<noteq> errApplyDeployment \<and>
   ''cannot render deployment'' \<noteq> errApplyService"
proof -
  let ?r = "(cluster (Some web) None None)\<lparr>Scheme := denyAll\<rparr>"
  have b: "SetControllerReference web
     (deploy_TypeMeta (passToDeployment web (newDeployment web)))
     (deploy_ObjectMeta (passToDeployment web (newDeployment web))) denyAll = Inl OwnershipError"
    by (simp add: SetControllerReference_def denyAll_def)
  have g: "Get ?r (NamespacedName webRequest) = Inr web"
    using cluster_Get_web [of None None] by simp
  have d: "renderDeployment (Scheme ?r) web = Inl OwnershipError"
    using b by (simp add: renderDeployment_def Let_def)
  have "Reconcile quietUtil ?r webRequest =
     ((\<lparr>Requeue = False, RequeueAfter = 30000000000\<rparr>, None),
      [EventCall (WorkloadItself web) (Warning ''cannot render deployment'' OwnershipError),
       PatchConditionCall web
         (ReconcileError (Wrap OwnershipError ''cannot render deployment''))])"
    unfolding Reconcile_render_deployment_fails [OF g d]
    by (simp add: quietUtil_wait quietUtil_PatchCondition reportingTarget_quiet
          errRenderDeployment_def)
  then show ?thesis
    using b by (simp add: errApplyDeployment_def errApplyService_def)
qed

text \<open>
  Claim C3, amended. For a workload that is found, a failure of the ownership binding
  surfaces from the cycle as a render-phase failure: when binding the deployment fails,
  the warning event and the condition carry "cannot render deployment"; when the
  deployment was applied and binding the service fails, they carry "cannot render service".
  In both cases the cycle returns the requeue outcome, and the classification is none of
  the two "cannot apply" classifications.
\<close>

theorem ownership_failure_is_render_failure:
  assumes "Get r (NamespacedName req) = Inr workload"
  shows "(SetControllerReference workload
            (deploy_TypeMeta (passToDeployment workload (newDeployment workload)))
            (deploy_ObjectMeta (passToDeployment workload (newDeployment workload)))
            (Scheme r) = Inl err \<longrightarrow>
          Reconcile util r req =
            ((ReconcileWaitResult util,
              PatchCondition util workload (ReconcileError (Wrap err errRenderDeployment))),
             [EventCall (reportingTarget util workload) (Warning errRenderDeployment err),
              PatchConditionCall workload (ReconcileError (Wrap err errRenderDeployment))])) \<and>
         (renderDeployment (Scheme r) workload = Inr deploy0 \<longrightarrow>
          PatchDeployment r deploy0 Merge (applyOptsOf workload) = Inr deploy \<longrightarrow>
          SetControllerReference workload
            (service_TypeMeta (newService workload))
            (service_ObjectMeta (newService workload)) (Scheme r) = Inl err \<longrightarrow>
          Reconcile util r req =
            ((ReconcileWaitResult util,
              PatchCondition util workload (ReconcileError (Wrap err errRenderService))),
             [PatchDeploymentCall deploy0,
              EventCall (reportingTarget util workload) (Normal ''Deployment created''
                (deploymentMessage (Name (ObjectMeta workload)) (Name (deploy_ObjectMeta deploy)))),
              EventCall (reportingTarget util workload) (Warning errRenderService err),
              PatchConditionCall workload (ReconcileError (Wrap err errRenderService))])) \<and>
         errRenderDeployment \<notin> {errApplyDeployment, errApplyService} \<and>
         errRenderService \<notin> {errApplyDeployment, errApplyService}"
proof (intro conjI impI)
  assume b: "SetControllerReference workload
            (deploy_TypeMeta (passToDeployment workload (newDeployment workload)))
            (deploy_ObjectMeta (passToDeployment workload (newDeployment workload)))
            (Scheme r) = Inl err"
  have d: "renderDeployment (Scheme r) workload = Inl err"
    using b by (simp add: renderDeployment_def Let_def)
  show "Reconcile util r req =
            ((ReconcileWaitResult util,
              PatchCondition util workload (ReconcileError (Wrap err errRenderDeployment))),
             [EventCall (reportingTarget util workload) (Warning errRenderDeployment err),
              PatchConditionCall workload (ReconcileError (Wrap err errRenderDeployment))])"
    by (rule Reconcile_render_deployment_fails [OF assms d])
next
  assume d: "renderDeployment (Scheme r) workload = Inr deploy0"
    and pd: "PatchDeployment r deploy0 Merge (applyOptsOf workload) = Inr deploy"
    and b: "SetControllerReference workload
            (service_TypeMeta (newService workload))
            (service_ObjectMeta (newService workload)) (Scheme r) = Inl err"
  have s: "renderService (Scheme r) workload = Inl err"
    using b by (simp add: renderService_def Let_def)
  show "Reconcile util r req =
            ((ReconcileWaitResult util,
              PatchCondition util workload (ReconcileError (Wrap err errRenderService))),
             [PatchDeploymentCall deploy0,
              EventCall (reportingTarget util workload) (Normal ''Deployment created''
                (deploymentMessage (Name (ObjectMeta workload)) (Name (deploy_ObjectMeta deploy)))),
              EventCall (reportingTarget util workload) (Warning errRenderService err),
              PatchConditionCall workload (ReconcileError (Wrap err errRenderService))])"
    by (rule Reconcile_render_service_fails [OF assms d pd s])
next
  show "errRenderDeployment \<notin> {errApplyDeployment, errApplyService}"
    by (simp add: errRenderDeployment_def errApplyDeployment_def errApplyService_def)
  show "errRenderService \<notin> {errApplyDeployment, errApplyService}"
    by (simp add: errRenderService_def errApplyDeployment_def errApplyService_def)
qed

theorem ownership_failure_is_render_failure_witness:
  "Get ((cluster (Some web) None None)\<lparr>Scheme := denyAll\<rparr>) (NamespacedName webRequest) = Inr web \<and>
   SetControllerReference web
     (deploy_TypeMeta (passToDeployment web (newDeployment web)))
     (deploy_ObjectMeta (passToDeployment web (newDeployment web))) denyAll = Inl OwnershipError \<and>
   snd (Reconcile quietUtil ((cluster (Some web) None None)\<lparr>Scheme := denyAll\<rparr>) webRequest) =
     [EventCall (WorkloadItself web) (Warning errRenderDeployment OwnershipError),
      PatchConditionCall web (ReconcileError (Wrap OwnershipError errRenderDeployment))] \<and>
   Get ((cluster (Some web) None None)\<lparr>Scheme := deploymentsOnly\<rparr>) (NamespacedName webRequest) =
     Inr web \<and>
   renderDeployment deploymentsOnly web = Inr webDeployment \<and>
   SetControllerReference web (service_TypeMeta (newService web))
     (service_ObjectMeta (newService web)) deploymentsOnly = Inl OwnershipError \<and>
   snd (Reconcile quietUtil ((cluster (Some web) None None)\<lparr>Scheme := deploymentsOnly\<rparr>)
          webRequest) =
     [PatchDeploymentCall webDeployment,
      EventCall (WorkloadItself web)
        (Normal ''Deployment created'' (deploymentMessage ''web'' ''web'')),
      EventCall (WorkloadItself web) (Warning errRenderService OwnershipError),
      PatchConditionCall web (ReconcileError (Wrap OwnershipError errRenderService))]"
proof -
  let ?r1 = "(cluster (Some web) None None)\<lparr>Scheme := denyAll\<rparr>"
  let ?r2 = "(cluster (Some web) None None)\<lparr>Scheme := deploymentsOnly\<rparr>"
  have g1: "Get ?r1 (NamespacedName webRequest) = Inr web"
    using cluster_Get_web [of None None] by simp
  have g2: "Get ?r2 (NamespacedName webRequest) = Inr web"
    using cluster_Get_web [of None None] by simp
  have b1: "SetControllerReference web
     (deploy_TypeMeta (passToDeployment web (newDeployment web)))
     (deploy_ObjectMeta (passToDeployment web (newDeployment web))) (Scheme ?r1) = Inl OwnershipError"
    by (simp add: SetControllerReference_def denyAll_def)
  have d2: "renderDeployment (Scheme ?r2) web = Inr webDeployment"
    using renderDeployment_web
    by (simp add: renderDeployment_def SetControllerReference_def Let_def allowAll_def
          deploymentsOnly_def passToDeployment_def newDeployment_def deploymentKind_def)
  have pd2: "PatchDeployment ?r2 webDeployment Merge (applyOptsOf web) =
               Inr (webDeployment\<lparr>deploy_ObjectMeta :=
                      (deploy_ObjectMeta webDeployment)\<lparr>UID := ''uid-deployment''\<rparr>\<rparr>)"
    using cluster_PatchDeployment [of "Some web" None webDeployment "applyOptsOf web"] by simp
  have b2: "SetControllerReference web (service_TypeMeta (newService web))
     (service_ObjectMeta (newService web)) (Scheme ?r2) = Inl OwnershipError"
    by (simp add: SetControllerReference_def deploymentsOnly_def newService_def serviceKind_def)
  have n: "Name (ObjectMeta web) = ''web''" "Name (deploy_ObjectMeta webDeployment) = ''web''"
    by (simp_all add: web_def webDeployment_def)
  have e1: "snd (Reconcile quietUtil ?r1 webRequest) =
     [EventCall (WorkloadItself web) (Warning errRenderDeployment OwnershipError),
      PatchConditionCall web (ReconcileError (Wrap OwnershipError errRenderDeployment))]"
    using ownership_failure_is_render_failure [OF g1, where err = OwnershipError and util = quietUtil] b1
    by (simp add: reportingTarget_quiet)
  have e2: "snd (Reconcile quietUtil ?r2 webRequest) =
     [PatchDeploymentCall webDeployment,
      EventCall (WorkloadItself web)
        (Normal ''Deployment created'' (deploymentMessage ''web'' ''web'')),
      EventCall (WorkloadItself web) (Warning errRenderService OwnershipError),
      PatchConditionCall web (ReconcileError (Wrap OwnershipError errRenderService))]"
    using ownership_failure_is_render_failure [OF g2, where err = OwnershipError
        and ?deploy0.0 = webDeployment
        and deploy = "webDeployment\<lparr>deploy_ObjectMeta :=
           (deploy_ObjectMeta webDeployment)\<lparr>UID := ''uid-deployment''\<rparr>\<rparr>"
        and util = quietUtil] d2 pd2 b2
    by (simp add: reportingTarget_quiet n)
  show ?thesis
    using g1 g2 b1 d2 b2 e1 e2 by simp
qed

subsection \<open>Failure to apply the service\<close>

text \<open>
  Claim C9 at a concrete cycle: the cluster holds \<^verbatim>\<open>web\<close>, accepts the deployment and
  rejects the service. The cycle returns the requeue outcome and reports the condition
  "cannot apply the service", but the warning event it records carries the reason
  "cannot apply the deployment" (line 123 passes \<^verbatim>\<open>errApplyDeployment\<close>).
\<close>

theorem service_apply_failure_event_reason:
  "PatchService (cluster (Some web) None (Some (Failure ''conflict''))) webService Merge
     (applyOptsOf web) = Inl (Failure ''conflict'') \<and>
   Reconcile quietUtil (cluster (Some web) None (Some (Failure ''conflict''))) webRequest =
     ((\<lparr>Requeue = False, RequeueAfter = 30000000000\<rparr>, None),
      [PatchDeploymentCall webDeployment,
       EventCall (WorkloadItself web)
         (Normal ''Deployment created'' (deploymentMessage ''web'' ''web'')),
       PatchServiceCall webService,
       EventCall (WorkloadItself web) (Warning errApplyDeployment (Failure ''conflict'')),
       PatchConditionCall web (ReconcileError (Wrap (Failure ''conflict'') errApplyService))]) \<and>
   errApplyDeployment \<noteq> errApplyService"
  by (simp add: Reconcile_web_service_conflict cluster_PatchService_fails)
     (simp add: errApplyDeployment_def errApplyService_def)

subsection \<open>The status is written last\<close>

lemma typedReference_webDeployment:
  "typedReference (deploy_TypeMeta webDeployment) (deploy_ObjectMeta webDeployment\<lparr>UID := uid\<rparr>) =
     \<lparr>ref_APIVersion = ''apps/v1'', ref_Kind = ''Deployment'', ref_Name = ''web'', ref_UID = uid\<rparr>"
  by (simp add: typedReference_def GroupVersionKind_def ParseGroupVersion_def GroupVersion_def
        GroupVersion_String_def webDeployment_def)

lemma typedReference_webService:
  "typedReference (service_TypeMeta webService) (service_ObjectMeta webService\<lparr>UID := uid\<rparr>) =
     \<lparr>ref_APIVersion = ''v1'', ref_Kind = ''Service'', ref_Name = ''web'', ref_UID = uid\<rparr>"
  by (simp add: typedReference_def GroupVersionKind_def ParseGroupVersion_def GroupVersion_def
        GroupVersion_String_def webService_def)

lemma Reconcile_reconciledWeb_success:
  "Reconcile quietUtil (cluster (Some reconciledWeb) None None) webRequest =
     ((\<lparr>Requeue = False, RequeueAfter = 0\<rparr>, None),
      [PatchDeploymentCall webDeployment,
       EventCall (WorkloadItself reconciledWeb)
         (Normal ''Deployment created'' (deploymentMessage ''web'' ''web'')),
       PatchServiceCall webService,
       EventCall (WorkloadItself reconciledWeb)
         (Normal ''Service created'' (serviceMessage ''web'' ''web'')),
       StatusUpdateCall (reconciledWeb\<lparr>Status := (Status reconciledWeb)\<lparr>Resources :=
         Some [\<lparr>ref_APIVersion = ''apps/v1'', ref_Kind = ''Deployment'', ref_Name = ''web'',
                ref_UID = ''uid-deployment''\<rparr>,
               \<lparr>ref_APIVersion = ''v1'', ref_Kind = ''Service'', ref_Name = ''web'',
                ref_UID = ''uid-service''\<rparr>]\<rparr>\<rparr>),
       PatchConditionCall (reconciledWeb\<lparr>Status := (Status reconciledWeb)\<lparr>Resources :=
         Some [\<lparr>ref_APIVersion = ''apps/v1'', ref_Kind = ''Deployment'', ref_Name = ''web'',
                ref_UID = ''uid-deployment''\<rparr>,
               \<lparr>ref_APIVersion = ''v1'', ref_Kind = ''Service'', ref_Name = ''web'',
                ref_UID = ''uid-service''\<rparr>]\<rparr>\<rparr>) ReconcileSuccess])"
proof -
  let ?r = "cluster (Some reconciledWeb) None None"
  have g: "Get ?r (NamespacedName webRequest) = Inr reconciledWeb"
    by (rule cluster_Get_reconciledWeb)
  have d: "renderDeployment (Scheme ?r) reconciledWeb = Inr webDeployment"
    by (simp add: cluster_Scheme renderDeployment_reconciledWeb)
  have pd: "PatchDeployment ?r webDeployment Merge (applyOptsOf reconciledWeb) =
     Inr (webDeployment\<lparr>deploy_ObjectMeta :=
            (deploy_ObjectMeta webDeployment)\<lparr>UID := ''uid-deployment''\<rparr>\<rparr>)"
    by (rule cluster_PatchDeployment)
  have s: "renderService (Scheme ?r) reconciledWeb = Inr webService"
    by (simp add: cluster_Scheme renderService_reconciledWeb)
  have ps: "PatchService ?r webService Merge (applyOptsOf reconciledWeb) =
     Inr (webService\<lparr>service_ObjectMeta :=
            (service_ObjectMeta webService)\<lparr>UID := ''uid-service''\<rparr>\<rparr>)"
    by (rule cluster_PatchService)
  have n: "Name (ObjectMeta reconciledWeb) = ''web''"
    "Name (deploy_ObjectMeta webDeployment) = ''web''"
    "Name (service_ObjectMeta webService) = ''web''"
    by (simp_all add: web_def reconciledWeb_def webDeployment_def webService_def)
  show ?thesis
    unfolding Reconcile_both_applied [OF g d pd s ps refl]
    by (simp add: cluster_StatusUpdate quietUtil_PatchCondition reportingTarget_quiet n
          typedReference_webDeployment typedReference_webService)
qed


lemma no_status_update_when_service_apply_fails:
  assumes "Get r (NamespacedName req) = Inr workload"
    and "renderDeployment (Scheme r) workload = Inr deploy0"
    and "PatchDeployment r deploy0 Merge (applyOptsOf workload) = Inr deploy"
    and "renderService (Scheme r) workload = Inr service0"
    and "PatchService r service0 Merge (applyOptsOf workload) = Inl err"
  shows "(\<forall>w'. StatusUpdateCall w' \<notin> set (snd (Reconcile util r req))) \<and>
         (\<forall>w' c. PatchConditionCall w' c \<in> set (snd (Reconcile util r req)) \<longrightarrow> w' = workload)"
  unfolding Reconcile_apply_service_fails [OF assms] by simp

lemma status_update_only_after_both_applied:
  assumes su: "StatusUpdateCall w' \<in> set (snd (Reconcile util r req))"
  shows "\<exists>w d0 d s0 s before after.
           Get r (NamespacedName req) = Inr w \<and>
           renderDeployment (Scheme r) w = Inr d0 \<and>
           PatchDeployment r d0 Merge (applyOptsOf w) = Inr d \<and>
           renderService (Scheme r) w = Inr s0 \<and>
           PatchService r s0 Merge (applyOptsOf w) = Inr s \<and>
           snd (Reconcile util r req) = before @ StatusUpdateCall w' # after \<and>
           PatchDeploymentCall d0 \<in> set before \<and>
           PatchServiceCall s0 \<in> set before"
proof (cases "Get r (NamespacedName req)")
  case (Inl e)
  with su show ?thesis by (simp add: Reconcile_get_fails)
next
  case g: (Inr w)
  show ?thesis
  proof (cases "renderDeployment (Scheme r) w")
    case (Inl e)
    from su show ?thesis
      unfolding Reconcile_render_deployment_fails [OF g Inl] by simp
  next
    case d: (Inr d0)
    show ?thesis
    proof (cases "PatchDeployment r d0 Merge (applyOptsOf w)")
      case (Inl e)
      from su show ?thesis
        unfolding Reconcile_apply_deployment_fails [OF g d Inl] by simp
    next
      case pd: (Inr dd)
      show ?thesis
      proof (cases "renderService (Scheme r) w")
        case (Inl e)
        from su show ?thesis
          unfolding Reconcile_render_service_fails [OF g d pd Inl] by simp
      next
        case s: (Inr s0)
        show ?thesis
        proof (cases "PatchService r s0 Merge (applyOptsOf w)")
          case (Inl e)
          from su show ?thesis
            unfolding Reconcile_apply_service_fails [OF g d pd s Inl] by simp
        next
          case ps: (Inr ss)
          let ?w1 = "w\<lparr>Status := (Status w)\<lparr>Resources :=
             Some [typedReference (deploy_TypeMeta dd) (deploy_ObjectMeta dd),
                   typedReference (service_TypeMeta ss) (service_ObjectMeta ss)]\<rparr>\<rparr>"
          let ?before = "[PatchDeploymentCall d0,
             EventCall (reportingTarget util w) (Normal ''Deployment created''
               (deploymentMessage (Name (ObjectMeta w)) (Name (deploy_ObjectMeta dd)))),
             PatchServiceCall s0,
             EventCall (reportingTarget util w) (Normal ''Service created''
               (serviceMessage (Name (ObjectMeta w)) (Name (service_ObjectMeta ss))))]"
          let ?after = "case StatusUpdate r ?w1 of
               Inl err \<Rightarrow> []
             | Inr workload2 \<Rightarrow> [PatchConditionCall workload2 ReconcileSuccess]"
          have eff: "snd (Reconcile util r req) = ?before @ StatusUpdateCall ?w1 # ?after"
            unfolding Reconcile_both_applied [OF g d pd s ps refl] by simp
          have "w' = ?w1"
            using su unfolding eff by (auto split: sum.splits)
          with eff have "snd (Reconcile util r req) = ?before @ StatusUpdateCall w' # ?after"
            by simp
          moreover have "PatchDeploymentCall d0 \<in> set ?before" "PatchServiceCall s0 \<in> set ?before"
            by simp_all
          ultimately show ?thesis
            using g d pd s ps by blast
        qed
      qed
    qed
  qed
qed

text \<open>
  Claim C2. In a cycle in which the deployment is applied and applying the service fails,
  no status update is sent at all, and the one condition report of the cycle is made with
  the workload exactly as it was fetched, so with the resource list that the store held.
  In any cycle, a status update is sent only if both patches succeeded, and after both.
\<close>

theorem status_untouched_when_service_apply_fails:
  "(Get r (NamespacedName req) = Inr workload \<longrightarrow>
    renderDeployment (Scheme r) workload = Inr deploy0 \<longrightarrow>
    PatchDeployment r deploy0 Merge (applyOptsOf workload) = Inr deploy \<longrightarrow>
    renderService (Scheme r) workload = Inr service0 \<longrightarrow>
    PatchService r service0 Merge (applyOptsOf workload) = Inl err \<longrightarrow>
      (\<forall>w'. StatusUpdateCall w' \<notin> set (snd (Reconcile util r req))) \<and>
      (\<forall>w' c. PatchConditionCall w' c \<in> set (snd (Reconcile util r req)) \<longrightarrow> w' = workload)) \<and>
   (\<forall>w'. StatusUpdateCall w' \<in> set (snd (Reconcile util r req)) \<longrightarrow>
      (\<exists>w d0 d s0 s before after.
           Get r (NamespacedName req) = Inr w \<and>
           renderDeployment (Scheme r) w = Inr d0 \<and>
           PatchDeployment r d0 Merge (applyOptsOf w) = Inr d \<and>
           renderService (Scheme r) w = Inr s0 \<and>
           PatchService r s0 Merge (applyOptsOf w) = Inr s \<and>
           snd (Reconcile util r req) = before @ StatusUpdateCall w' # after \<and>
           PatchDeploymentCall d0 \<in> set before \<and>
           PatchServiceCall s0 \<in> set before))"
proof (intro conjI impI allI)
  assume "Get r (NamespacedName req) = Inr workload"
    and "renderDeployment (Scheme r) workload = Inr deploy0"
    and "PatchDeployment r deploy0 Merge (applyOptsOf workload) = Inr deploy"
    and "renderService (Scheme r) workload = Inr service0"
    and "PatchService r service0 Merge (applyOptsOf workload) = Inl err"
  then have both: "(\<forall>w'. StatusUpdateCall w' \<notin> set (snd (Reconcile util r req))) \<and>
         (\<forall>w' c. PatchConditionCall w' c \<in> set (snd (Reconcile util r req)) \<longrightarrow> w' = workload)"
    by (rule no_status_update_when_service_apply_fails)
  show "StatusUpdateCall w' \<notin> set (snd (Reconcile util r req))" for w'
    using both by simp
  show "w' = workload" if "PatchConditionCall w' c \<in> set (snd (Reconcile util r req))" for w' c
    using both that by blast
next
  fix w'
  assume "StatusUpdateCall w' \<in> set (snd (Reconcile util r req))"
  then show "\<exists>w d0 d s0 s before after.
           Get r (NamespacedName req) = Inr w \<and>
           renderDeployment (Scheme r) w = Inr d0 \<and>
           PatchDeployment r d0 Merge (applyOptsOf w) = Inr d \<and>
           renderService (Scheme r) w = Inr s0 \<and>
           PatchService r s0 Merge (applyOptsOf w) = Inr s \<and>
           snd (Reconcile util r req) = before @ StatusUpdateCall w' # after \<and>
           PatchDeploymentCall d0 \<in> set before \<and>
           PatchServiceCall s0 \<in> set before"
    by (rule status_update_only_after_both_applied)
qed


theorem status_untouched_when_service_apply_fails_witness:
  "Get (cluster (Some reconciledWeb) None (Some (Failure ''conflict''))) (NamespacedName webRequest) =
     Inr reconciledWeb \<and>
   renderDeployment (Scheme (cluster (Some reconciledWeb) None (Some (Failure ''conflict''))))
     reconciledWeb = Inr webDeployment \<and>
   PatchDeployment (cluster (Some reconciledWeb) None (Some (Failure ''conflict''))) webDeployment
     Merge (applyOptsOf reconciledWeb) =
     Inr (webDeployment\<lparr>deploy_ObjectMeta :=
            (deploy_ObjectMeta webDeployment)\<lparr>UID := ''uid-deployment''\<rparr>\<rparr>) \<and>
   renderService (Scheme (cluster (Some reconciledWeb) None (Some (Failure ''conflict''))))
     reconciledWeb = Inr webService \<and>
   PatchService (cluster (Some reconciledWeb) None (Some (Failure ''conflict''))) webService
     Merge (applyOptsOf reconciledWeb) = Inl (Failure ''conflict'') \<and>
   StatusUpdateCall (reconciledWeb\<lparr>Status := (Status reconciledWeb)\<lparr>Resources :=
       Some [\<lparr>ref_APIVersion = ''apps/v1'', ref_Kind = ''Deployment'', ref_Name = ''web'',
              ref_UID = ''uid-deployment''\<rparr>,
             \<lparr>ref_APIVersion = ''v1'', ref_Kind = ''Service'', ref_Name = ''web'',
              ref_UID = ''uid-service''\<rparr>]\<rparr>\<rparr>)
     \<notin> set (snd (Reconcile quietUtil
                      (cluster (Some reconciledWeb) None (Some (Failure ''conflict''))) webRequest)) \<and>
   StatusUpdateCall reconciledWeb
     \<notin> set (snd (Reconcile quietUtil
                      (cluster (Some reconciledWeb) None (Some (Failure ''conflict''))) webRequest)) \<and>
   PatchConditionCall reconciledWeb
       (ReconcileError (Wrap (Failure ''conflict'') ''cannot apply the service''))
     \<in> set (snd (Reconcile quietUtil
                      (cluster (Some reconciledWeb) None (Some (Failure ''conflict''))) webRequest)) \<and>
   StatusUpdateCall (reconciledWeb\<lparr>Status := (Status reconciledWeb)\<lparr>Resources :=
       Some [\<lparr>ref_APIVersion = ''apps/v1'', ref_Kind = ''Deployment'', ref_Name = ''web'',
              ref_UID = ''uid-deployment''\<rparr>,
             \<lparr>ref_APIVersion = ''v1'', ref_Kind = ''Service'', ref_Name = ''web'',
              ref_UID = ''uid-service''\<rparr>]\<rparr>\<rparr>)
     \<in> set (snd (Reconcile quietUtil (cluster (Some reconciledWeb) None None) webRequest)) \<and>
   (\<exists>before after d0 s0.
      snd (Reconcile quietUtil (cluster (Some reconciledWeb) None None) webRequest) =
        before @
        StatusUpdateCall (reconciledWeb\<lparr>Status := (Status reconciledWeb)\<lparr>Resources :=
          Some [\<lparr>ref_APIVersion = ''apps/v1'', ref_Kind = ''Deployment'', ref_Name = ''web'',
                 ref_UID = ''uid-deployment''\<rparr>,
                \<lparr>ref_APIVersion = ''v1'', ref_Kind = ''Service'', ref_Name = ''web'',
                 ref_UID = ''uid-service''\<rparr>]\<rparr>\<rparr>) # after \<and>
      PatchDeploymentCall d0 \<in> set before \<and> PatchServiceCall s0 \<in> set before)"
proof -
  let ?r = "cluster (Some reconciledWeb) None (Some (Failure ''conflict''))"
  let ?ok = "cluster (Some reconciledWeb) None None"
  let ?w1 = "reconciledWeb\<lparr>Status := (Status reconciledWeb)\<lparr>Resources :=
       Some [\<lparr>ref_APIVersion = ''apps/v1'', ref_Kind = ''Deployment'', ref_Name = ''web'',
              ref_UID = ''uid-deployment''\<rparr>,
             \<lparr>ref_APIVersion = ''v1'', ref_Kind = ''Service'', ref_Name = ''web'',
              ref_UID = ''uid-service''\<rparr>]\<rparr>\<rparr>"
  have g: "Get ?r (NamespacedName webRequest) = Inr reconciledWeb"
    by (rule cluster_Get_reconciledWeb)
  have d: "renderDeployment (Scheme ?r) reconciledWeb = Inr webDeployment"
    by (simp add: cluster_Scheme renderDeployment_reconciledWeb)
  have pd: "PatchDeployment ?r webDeployment Merge (applyOptsOf reconciledWeb) =
     Inr (webDeployment\<lparr>deploy_ObjectMeta :=
            (deploy_ObjectMeta webDeployment)\<lparr>UID := ''uid-deployment''\<rparr>\<rparr>)"
    by (rule cluster_PatchDeployment)
  have s: "renderService (Scheme ?r) reconciledWeb = Inr webService"
    by (simp add: cluster_Scheme renderService_reconciledWeb)
  have ps: "PatchService ?r webService Merge (applyOptsOf reconciledWeb) = Inl (Failure ''conflict'')"
    by (rule cluster_PatchService_fails)
  have su: "StatusUpdateCall ?w1 \<in> set (snd (Reconcile quietUtil ?ok webRequest))"
    by (simp add: Reconcile_reconciledWeb_success)
  note main = status_untouched_when_service_apply_fails
  have first: "(\<forall>w'. StatusUpdateCall w' \<notin> set (snd (Reconcile quietUtil ?r webRequest))) \<and>
      (\<forall>w' c. PatchConditionCall w' c \<in> set (snd (Reconcile quietUtil ?r webRequest)) \<longrightarrow>
         w' = reconciledWeb)"
    using main [where r = ?r and req = webRequest and util = quietUtil and workload = reconciledWeb
        and ?deploy0.0 = webDeployment and ?service0.0 = webService
        and err = "Failure ''conflict''"
        and deploy = "webDeployment\<lparr>deploy_ObjectMeta :=
            (deploy_ObjectMeta webDeployment)\<lparr>UID := ''uid-deployment''\<rparr>\<rparr>"]
      g d pd s ps
    by (elim conjE) (rule mp [OF mp [OF mp [OF mp [OF mp]]]])
  have always: "\<forall>w'. StatusUpdateCall w' \<in> set (snd (Reconcile quietUtil ?ok webRequest)) \<longrightarrow>
      (\<exists>w d0 d s0 s before after.
           Get ?ok (NamespacedName webRequest) = Inr w \<and>
           renderDeployment (Scheme ?ok) w = Inr d0 \<and>
           PatchDeployment ?ok d0 Merge (applyOptsOf w) = Inr d \<and>
           renderService (Scheme ?ok) w = Inr s0 \<and>
           PatchService ?ok s0 Merge (applyOptsOf w) = Inr s \<and>
           snd (Reconcile quietUtil ?ok webRequest) = before @ StatusUpdateCall w' # after \<and>
           PatchDeploymentCall d0 \<in> set before \<and>
           PatchServiceCall s0 \<in> set before)"
    using main [where r = ?ok and req = webRequest and util = quietUtil] by (rule conjunct2)
  from mp [OF spec [OF always] su]
  obtain d0 s0 before after
    where "snd (Reconcile quietUtil ?ok webRequest) = before @ StatusUpdateCall ?w1 # after"
      and "PatchDeploymentCall d0 \<in> set before" and "PatchServiceCall s0 \<in> set before"
    by (elim exE conjE)
  then have c: "\<exists>before after d0 s0.
      snd (Reconcile quietUtil ?ok webRequest) = before @ StatusUpdateCall ?w1 # after \<and>
      PatchDeploymentCall d0 \<in> set before \<and> PatchServiceCall s0 \<in> set before"
    by (intro exI conjI)
  from first have a: "\<forall>w'. StatusUpdateCall w' \<notin> set (snd (Reconcile quietUtil ?r webRequest))"
    by (rule conjunct1)
  have a1: "StatusUpdateCall ?w1 \<notin> set (snd (Reconcile quietUtil ?r webRequest))"
    by (rule spec [OF a])
  have a2: "StatusUpdateCall reconciledWeb \<notin> set (snd (Reconcile quietUtil ?r webRequest))"
    by (rule spec [OF a])
  have b: "PatchConditionCall reconciledWeb
       (ReconcileError (Wrap (Failure ''conflict'') ''cannot apply the service''))
     \<in> set (snd (Reconcile quietUtil ?r webRequest))"
    unfolding Reconcile_apply_service_fails [OF g d pd s ps]
    by (simp add: errApplyService_def)
  show ?thesis
    by (intro conjI g d pd s ps a1 a2 b su c)
qed

subsection \<open>The references written to the status\<close>

lemma takeWhile_slash_tl:
  assumes "CHR ''/'' \<in> set s"
  shows "takeWhile (\<lambda>c. c \<noteq> CHR ''/'') s @ ''/'' @ tl (dropWhile (\<lambda>c. c \<noteq> CHR ''/'') s) = s"
proof -
  let ?d = "dropWhile (\<lambda>c. c \<noteq> CHR ''/'') s"
  have ne: "?d \<noteq> []"
    using assms by simp
  then have "hd ?d = CHR ''/''"
    using hd_dropWhile [of "\<lambda>c. c \<noteq> CHR ''/''" s] by simp
  with ne have "?d = CHR ''/'' # tl ?d"
    by (cases ?d) simp_all
  then have "''/'' @ tl ?d = ?d"
    by simp
  then show ?thesis
    by (simp only: takeWhile_dropWhile_id)
qed

lemma GroupVersion_String_roundtrip:
  assumes "groupVersionShaped (APIVersion kind)"
  shows "GroupVersion_String (GroupVersion (GroupVersionKind kind)) = APIVersion kind"
proof (cases "count_list (APIVersion kind) (CHR ''/'') = 0")
  case True
  then have "APIVersion kind \<noteq> ''/''"
    by auto
  with True show ?thesis
    by (simp add: GroupVersionKind_def ParseGroupVersion_def GroupVersion_def
          GroupVersion_String_def)
next
  case False
  with assms have one: "count_list (APIVersion kind) (CHR ''/'') = 1"
    and h: "hd (APIVersion kind) \<noteq> CHR ''/''"
    by (simp_all add: groupVersionShaped_def)
  from one have mem: "CHR ''/'' \<in> set (APIVersion kind)"
    using count_list_0_iff [of "APIVersion kind" "CHR ''/''"] by simp
  then have ne: "APIVersion kind \<noteq> []"
    by auto
  from h ne have ns: "APIVersion kind \<noteq> ''/''"
    by auto
  from h ne have tw: "takeWhile (\<lambda>c. c \<noteq> CHR ''/'') (APIVersion kind) \<noteq> []"
    by (cases "APIVersion kind") simp_all
  show ?thesis
    using one ne ns tw takeWhile_slash_tl [OF mem]
    by (simp add: GroupVersionKind_def ParseGroupVersion_def GroupVersion_def
          GroupVersion_String_def)
qed

text \<open>
  Claim C5. In a cycle in which both children are rendered and applied, exactly one status
  update is sent, for the workload as fetched with its resource list replaced, whatever it
  held, by exactly two references: first the one to the applied deployment, then the one to
  the applied service, each with the kind, name and unique identifier of the child and with
  its group and version printed back (which is the API version of the child whenever that
  has the form \<^verbatim>\<open>version\<close> or \<^verbatim>\<open>group/version\<close>). When the status update and the
  final condition report succeed as well, the cycle returns the empty result and no error.
\<close>

theorem status_resources_replaced:
  assumes "Get r (NamespacedName req) = Inr workload"
    and "renderDeployment (Scheme r) workload = Inr deploy0"
    and "PatchDeployment r deploy0 Merge (applyOptsOf workload) = Inr deploy"
    and "renderService (Scheme r) workload = Inr service0"
    and "PatchService r service0 Merge (applyOptsOf workload) = Inr service"
  shows "\<exists>workload1.
      StatusUpdateCall workload1 \<in> set (snd (Reconcile util r req)) \<and>
      (\<forall>w'. StatusUpdateCall w' \<in> set (snd (Reconcile util r req)) \<longrightarrow> w' = workload1) \<and>
      workload1 = workload\<lparr>Status := (Status workload)\<lparr>Resources :=
                     Resources (Status workload1)\<rparr>\<rparr> \<and>
      Resources (Status workload1) =
        Some [\<lparr>ref_APIVersion =
                 GroupVersion_String (GroupVersion (GroupVersionKind (deploy_TypeMeta deploy))),
               ref_Kind = Kind (deploy_TypeMeta deploy),
               ref_Name = Name (deploy_ObjectMeta deploy),
               ref_UID = UID (deploy_ObjectMeta deploy)\<rparr>,
              \<lparr>ref_APIVersion =
                 GroupVersion_String (GroupVersion (GroupVersionKind (service_TypeMeta service))),
               ref_Kind = Kind (service_TypeMeta service),
               ref_Name = Name (service_ObjectMeta service),
               ref_UID = UID (service_ObjectMeta service)\<rparr>] \<and>
      (groupVersionShaped (APIVersion (deploy_TypeMeta deploy)) \<longrightarrow>
         GroupVersion_String (GroupVersion (GroupVersionKind (deploy_TypeMeta deploy))) =
         APIVersion (deploy_TypeMeta deploy)) \<and>
      (groupVersionShaped (APIVersion (service_TypeMeta service)) \<longrightarrow>
         GroupVersion_String (GroupVersion (GroupVersionKind (service_TypeMeta service))) =
         APIVersion (service_TypeMeta service)) \<and>
      (\<forall>workload2. StatusUpdate r workload1 = Inr workload2 \<longrightarrow>
         PatchCondition util workload2 ReconcileSuccess = None \<longrightarrow>
         fst (Reconcile util r req) = (\<lparr>Requeue = False, RequeueAfter = 0\<rparr>, None))"
proof -
  let ?w1 = "workload\<lparr>Status := (Status workload)\<lparr>Resources :=
     Some [typedReference (deploy_TypeMeta deploy) (deploy_ObjectMeta deploy),
           typedReference (service_TypeMeta service) (service_ObjectMeta service)]\<rparr>\<rparr>"
  note run = Reconcile_both_applied [OF assms refl, of util]
  have kindD: "gvk_Kind (GroupVersionKind (deploy_TypeMeta deploy)) = Kind (deploy_TypeMeta deploy)"
    by (simp add: GroupVersionKind_def split: sum.splits)
  have kindS: "gvk_Kind (GroupVersionKind (service_TypeMeta service)) = Kind (service_TypeMeta service)"
    by (simp add: GroupVersionKind_def split: sum.splits)
  have 1: "StatusUpdateCall ?w1 \<in> set (snd (Reconcile util r req))"
    unfolding run by simp
  have 2: "\<forall>w'. StatusUpdateCall w' \<in> set (snd (Reconcile util r req)) \<longrightarrow> w' = ?w1"
    unfolding run by (auto split: sum.splits)
  have 3: "?w1 = workload\<lparr>Status := (Status workload)\<lparr>Resources := Resources (Status ?w1)\<rparr>\<rparr>"
    by simp
  have 4: "Resources (Status ?w1) =
        Some [\<lparr>ref_APIVersion =
                 GroupVersion_String (GroupVersion (GroupVersionKind (deploy_TypeMeta deploy))),
               ref_Kind = Kind (deploy_TypeMeta deploy),
               ref_Name = Name (deploy_ObjectMeta deploy),
               ref_UID = UID (deploy_ObjectMeta deploy)\<rparr>,
              \<lparr>ref_APIVersion =
                 GroupVersion_String (GroupVersion (GroupVersionKind (service_TypeMeta service))),
               ref_Kind = Kind (service_TypeMeta service),
               ref_Name = Name (service_ObjectMeta service),
               ref_UID = UID (service_ObjectMeta service)\<rparr>]"
    by (simp add: typedReference_def kindD kindS)
  have 5: "groupVersionShaped (APIVersion (deploy_TypeMeta deploy)) \<longrightarrow>
         GroupVersion_String (GroupVersion (GroupVersionKind (deploy_TypeMeta deploy))) =
         APIVersion (deploy_TypeMeta deploy)"
    by (simp add: GroupVersion_String_roundtrip)
  have 6: "groupVersionShaped (APIVersion (service_TypeMeta service)) \<longrightarrow>
         GroupVersion_String (GroupVersion (GroupVersionKind (service_TypeMeta service))) =
         APIVersion (service_TypeMeta service)"
    by (simp add: GroupVersion_String_roundtrip)
  have 7: "\<forall>workload2. StatusUpdate r ?w1 = Inr workload2 \<longrightarrow>
         PatchCondition util workload2 ReconcileSuccess = None \<longrightarrow>
         fst (Reconcile util r req) = (\<lparr>Requeue = False, RequeueAfter = 0\<rparr>, None)"
    unfolding run by simp
  show ?thesis
    by (rule exI [of _ ?w1]) (intro conjI 1 2 3 4 5 6 7)
qed

theorem status_resources_replaced_witness:
  "Get (cluster (Some reconciledWeb) None None) (NamespacedName webRequest) = Inr reconciledWeb \<and>
   renderDeployment (Scheme (cluster (Some reconciledWeb) None None)) reconciledWeb =
     Inr webDeployment \<and>
   PatchDeployment (cluster (Some reconciledWeb) None None) webDeployment Merge
     (applyOptsOf reconciledWeb) =
     Inr (webDeployment\<lparr>deploy_ObjectMeta :=
            (deploy_ObjectMeta webDeployment)\<lparr>UID := ''uid-deployment''\<rparr>\<rparr>) \<and>
   renderService (Scheme (cluster (Some reconciledWeb) None None)) reconciledWeb =
     Inr webService \<and>
   PatchService (cluster (Some reconciledWeb) None None) webService Merge
     (applyOptsOf reconciledWeb) =
     Inr (webService\<lparr>service_ObjectMeta :=
            (service_ObjectMeta webService)\<lparr>UID := ''uid-service''\<rparr>\<rparr>) \<and>
   groupVersionShaped ''apps/v1'' \<and>
   groupVersionShaped ''v1'' \<and>
   Resources (Status reconciledWeb) =
     Some [\<lparr>ref_APIVersion = ''apps/v1'', ref_Kind = ''Deployment'', ref_Name = ''web'',
            ref_UID = ''uid-old''\<rparr>] \<and>
   (\<exists>workload1.
      StatusUpdateCall workload1 \<in>
        set (snd (Reconcile quietUtil (cluster (Some reconciledWeb) None None) webRequest)) \<and>
      Resources (Status workload1) =
        Some [\<lparr>ref_APIVersion = ''apps/v1'', ref_Kind = ''Deployment'', ref_Name = ''web'',
               ref_UID = ''uid-deployment''\<rparr>,
              \<lparr>ref_APIVersion = ''v1'', ref_Kind = ''Service'', ref_Name = ''web'',
               ref_UID = ''uid-service''\<rparr>] \<and>
      StatusUpdate (cluster (Some reconciledWeb) None None) workload1 = Inr workload1 \<and>
      PatchCondition quietUtil workload1 ReconcileSuccess = None) \<and>
   fst (Reconcile quietUtil (cluster (Some reconciledWeb) None None) webRequest) =
     (\<lparr>Requeue = False, RequeueAfter = 0\<rparr>, None)"
proof -
  let ?r = "cluster (Some reconciledWeb) None None"
  let ?d = "webDeployment\<lparr>deploy_ObjectMeta :=
            (deploy_ObjectMeta webDeployment)\<lparr>UID := ''uid-deployment''\<rparr>\<rparr>"
  let ?s = "webService\<lparr>service_ObjectMeta :=
            (service_ObjectMeta webService)\<lparr>UID := ''uid-service''\<rparr>\<rparr>"
  have g: "Get ?r (NamespacedName webRequest) = Inr reconciledWeb"
    by (rule cluster_Get_reconciledWeb)
  have d: "renderDeployment (Scheme ?r) reconciledWeb = Inr webDeployment"
    by (simp add: cluster_Scheme renderDeployment_reconciledWeb)
  have pd: "PatchDeployment ?r webDeployment Merge (applyOptsOf reconciledWeb) = Inr ?d"
    by (rule cluster_PatchDeployment)
  have s: "renderService (Scheme ?r) reconciledWeb = Inr webService"
    by (simp add: cluster_Scheme renderService_reconciledWeb)
  have ps: "PatchService ?r webService Merge (applyOptsOf reconciledWeb) = Inr ?s"
    by (rule cluster_PatchService)
  have shD: "groupVersionShaped ''apps/v1''" and shS: "groupVersionShaped ''v1''"
    by (simp_all add: groupVersionShaped_def)
  have old: "Resources (Status reconciledWeb) =
     Some [\<lparr>ref_APIVersion = ''apps/v1'', ref_Kind = ''Deployment'', ref_Name = ''web'',
            ref_UID = ''uid-old''\<rparr>]"
    by (simp add: reconciledWeb_def)
  have tmD: "deploy_TypeMeta ?d = \<lparr>Kind = ''Deployment'', APIVersion = ''apps/v1''\<rparr>"
    and omD: "Name (deploy_ObjectMeta ?d) = ''web''" "UID (deploy_ObjectMeta ?d) = ''uid-deployment''"
    by (simp_all add: webDeployment_def)
  have tmS: "service_TypeMeta ?s = \<lparr>Kind = ''Service'', APIVersion = ''v1''\<rparr>"
    and omS: "Name (service_ObjectMeta ?s) = ''web''" "UID (service_ObjectMeta ?s) = ''uid-service''"
    by (simp_all add: webService_def)
  from status_resources_replaced [OF g d pd s ps, of quietUtil]
  obtain workload1
    where su: "StatusUpdateCall workload1 \<in> set (snd (Reconcile quietUtil ?r webRequest))"
      and res: "Resources (Status workload1) =
        Some [\<lparr>ref_APIVersion =
                 GroupVersion_String (GroupVersion (GroupVersionKind (deploy_TypeMeta ?d))),
               ref_Kind = Kind (deploy_TypeMeta ?d),
               ref_Name = Name (deploy_ObjectMeta ?d),
               ref_UID = UID (deploy_ObjectMeta ?d)\<rparr>,
              \<lparr>ref_APIVersion =
                 GroupVersion_String (GroupVersion (GroupVersionKind (service_TypeMeta ?s))),
               ref_Kind = Kind (service_TypeMeta ?s),
               ref_Name = Name (service_ObjectMeta ?s),
               ref_UID = UID (service_ObjectMeta ?s)\<rparr>]"
      and rtD: "groupVersionShaped (APIVersion (deploy_TypeMeta ?d)) \<longrightarrow>
         GroupVersion_String (GroupVersion (GroupVersionKind (deploy_TypeMeta ?d))) =
         APIVersion (deploy_TypeMeta ?d)"
      and rtS: "groupVersionShaped (APIVersion (service_TypeMeta ?s)) \<longrightarrow>
         GroupVersion_String (GroupVersion (GroupVersionKind (service_TypeMeta ?s))) =
         APIVersion (service_TypeMeta ?s)"
      and fin: "\<forall>workload2. StatusUpdate ?r workload1 = Inr workload2 \<longrightarrow>
         PatchCondition quietUtil workload2 ReconcileSuccess = None \<longrightarrow>
         fst (Reconcile quietUtil ?r webRequest) = (\<lparr>Requeue = False, RequeueAfter = 0\<rparr>, None)"
    by (elim exE conjE)
  have avD: "GroupVersion_String (GroupVersion (GroupVersionKind (deploy_TypeMeta ?d))) = ''apps/v1''"
    using rtD shD by (simp only: tmD TypeMeta.simps)
  have avS: "GroupVersion_String (GroupVersion (GroupVersionKind (service_TypeMeta ?s))) = ''v1''"
    using rtS shS by (simp only: tmS TypeMeta.simps)
  have res': "Resources (Status workload1) =
        Some [\<lparr>ref_APIVersion = ''apps/v1'', ref_Kind = ''Deployment'', ref_Name = ''web'',
               ref_UID = ''uid-deployment''\<rparr>,
              \<lparr>ref_APIVersion = ''v1'', ref_Kind = ''Service'', ref_Name = ''web'',
               ref_UID = ''uid-service''\<rparr>]"
    using avD avS unfolding res omD omS tmD tmS by simp
  have upd: "StatusUpdate ?r workload1 = Inr workload1"
    by (rule cluster_StatusUpdate)
  have pc: "PatchCondition quietUtil workload1 ReconcileSuccess = None"
    by (rule quietUtil_PatchCondition)
  have out: "fst (Reconcile quietUtil ?r webRequest) = (\<lparr>Requeue = False, RequeueAfter = 0\<rparr>, None)"
    by (rule mp [OF mp [OF spec [OF fin] upd] pc])
  have ex: "\<exists>workload1.
      StatusUpdateCall workload1 \<in> set (snd (Reconcile quietUtil ?r webRequest)) \<and>
      Resources (Status workload1) =
        Some [\<lparr>ref_APIVersion = ''apps/v1'', ref_Kind = ''Deployment'', ref_Name = ''web'',
               ref_UID = ''uid-deployment''\<rparr>,
              \<lparr>ref_APIVersion = ''v1'', ref_Kind = ''Service'', ref_Name = ''web'',
               ref_UID = ''uid-service''\<rparr>] \<and>
      StatusUpdate ?r workload1 = Inr workload1 \<and>
      PatchCondition quietUtil workload1 ReconcileSuccess = None"
    by (rule exI [of _ workload1]) (intro conjI su res' upd pc)
  show ?thesis
    by (intro conjI g d pd s ps shD shS old ex out)
qed

end
